theory Spec2Isabelle
  imports Main "HOL-Library.Word"
begin

section \<open>Bytes, text and exceptions\<close>

text \<open>
  A Python \<open>bytes\<close> value is a list of 8-bit words, a Python \<open>str\<close> is the list of its
  Unicode code points, a Python \<open>int\<close> is an \<open>int\<close>. Every exception the sources can
  raise is a constructor of \<open>error\<close>; a function that can raise returns \<open>error + 'a\<close>.
\<close>

type_synonym byte = "8 word"
type_synonym bytes = "byte list"
type_synonym str = "nat list"

datatype error =
    NexMessageException byte
  | NexMessageEndException
  | NexMessageLengthException
  | NexMessageFirstByteException
  | NexComponentNameException
  | NexComponentIdException
  | ValueError
  | NotImplementedError
  | UnicodeDecodeError
  | UnicodeEncodeError
  | KeyError
  | AttributeError
  | TypeError
  | IndexError
  | AssertionError
  | OverflowError

definition pystr :: "string \<Rightarrow> str" where
  "pystr cs = map of_char cs"

text \<open>\<open>bytes(s, 'latin1', 'strict')\<close>: one byte per code point, an error above 255.\<close>

definition latin1 :: "str \<Rightarrow> error + bytes" where
  "latin1 s = (if list_all (\<lambda>c. c < 256) s then Inr (map of_nat s) else Inl UnicodeEncodeError)"

text \<open>
  \<open>bytes.decode("utf-8")\<close> (strict): the well-formed byte sequences of the Unicode
  standard. \<open>need\<close> counts the continuation bytes still expected, \<open>acc\<close> holds the bits
  read so far, \<open>lo\<close> and \<open>hi\<close> bound the next continuation byte.
\<close>

fun utf8_run :: "nat \<Rightarrow> nat \<Rightarrow> byte \<Rightarrow> byte \<Rightarrow> bytes \<Rightarrow> error + str" where
  "utf8_run need acc lo hi [] = (if need = 0 then Inr [] else Inl UnicodeDecodeError)"
| "utf8_run need acc lo hi (b # bs) =
     (if need = 0 then
        (if b < 0x80 then
           (case utf8_run 0 0 0x80 0xBF bs of Inl e \<Rightarrow> Inl e | Inr s \<Rightarrow> Inr (unat b # s))
         else if 0xC2 \<le> b \<and> b \<le> 0xDF then utf8_run 1 (unat b - 0xC0) 0x80 0xBF bs
         else if b = 0xE0 then utf8_run 2 0 0xA0 0xBF bs
         else if (0xE1 \<le> b \<and> b \<le> 0xEC) \<or> b = 0xEE \<or> b = 0xEF
           then utf8_run 2 (unat b - 0xE0) 0x80 0xBF bs
         else if b = 0xED then utf8_run 2 13 0x80 0x9F bs
         else if b = 0xF0 then utf8_run 3 0 0x90 0xBF bs
         else if 0xF1 \<le> b \<and> b \<le> 0xF3 then utf8_run 3 (unat b - 0xF0) 0x80 0xBF bs
         else if b = 0xF4 then utf8_run 3 4 0x80 0x8F bs
         else Inl UnicodeDecodeError)
      else if lo \<le> b \<and> b \<le> hi then
        (if need = 1 then
           (case utf8_run 0 0 0x80 0xBF bs of Inl e \<Rightarrow> Inl e
            | Inr s \<Rightarrow> Inr ((acc * 64 + (unat b - 0x80)) # s))
         else utf8_run (need - 1) (acc * 64 + (unat b - 0x80)) 0x80 0xBF bs)
      else Inl UnicodeDecodeError)"

definition utf8_decode :: "bytes \<Rightarrow> error + str" where
  "utf8_decode bs = utf8_run 0 0 0x80 0xBF bs"

section \<open>constants.py: the return codes\<close>

text \<open>
  \<open>constants.py\<close> is not among the sources, so the enumeration \<open>Return.Code\<close> is a
  parameter \<open>R\<close> of the model: \<open>Code_value R n\<close> is \<open>Return.Code.n.value\<close> for each member
  the sources name, \<open>Code_others R\<close> lists the values of the members they do not name, and
  \<open>Mode_ALWAYS R\<close> is \<open>Return.Mode.ALWAYS.value\<close>. A member of a Python \<open>Enum\<close> is
  determined by its value (two names with one value are one member), so a member is
  represented by its value. \<open>Code_IntEnum R\<close> tells which kind of enumeration \<open>Return.Code\<close>
  is: an \<open>IntEnum\<close>, whose members are integers, or a plain \<open>Enum\<close>, whose members are
  not; the \<open>%d\<close> of a format string takes the first and refuses the second with a
  \<open>TypeError\<close>.
\<close>

datatype Code =
    INVALID_CMD | CMD_FINISHED | INVALID_COMPONENT_ID | INVALID_PAGE_ID
  | INVALID_PICTURE_ID | INVALID_FONT_ID | INVALID_BAUD | INVALID_VARIABLE
  | INVALID_OPERATION | INVALID_ASSIGN | INVALID_EEPROM | INVALID_PARAMETER_QUANTITY
  | INVALID_IO | INVALID_ESC_CHAR | INVALID_VAR_NAME_TOO_LONG
  | EVENT_TOUCH_HEAD | CURRENT_PAGE_ID_HEAD | EVENT_POSITION_HEAD
  | EVENT_SLEEP_POSITION_HEAD | STRING_HEAD | NUMBER_HEAD | EVENT_LAUNCHED

record Return =
  Code_value :: "Code \<Rightarrow> byte"
  Code_others :: "byte list"
  Code_IntEnum :: bool
  Mode_ALWAYS :: int

definition Code_names :: "Code list" where
  "Code_names =
     [INVALID_CMD, CMD_FINISHED, INVALID_COMPONENT_ID, INVALID_PAGE_ID,
      INVALID_PICTURE_ID, INVALID_FONT_ID, INVALID_BAUD, INVALID_VARIABLE,
      INVALID_OPERATION, INVALID_ASSIGN, INVALID_EEPROM, INVALID_PARAMETER_QUANTITY,
      INVALID_IO, INVALID_ESC_CHAR, INVALID_VAR_NAME_TOO_LONG,
      EVENT_TOUCH_HEAD, CURRENT_PAGE_ID_HEAD, EVENT_POSITION_HEAD,
      EVENT_SLEEP_POSITION_HEAD, STRING_HEAD, NUMBER_HEAD, EVENT_LAUNCHED]"

definition Code_members :: "Return \<Rightarrow> byte list" where
  "Code_members R = map (Code_value R) Code_names @ Code_others R"

text \<open>\<open>Return.Code(b)\<close>: the member with value \<open>b\<close>, or \<open>ValueError\<close>.\<close>

definition Return_Code :: "Return \<Rightarrow> byte \<Rightarrow> error + byte" where
  "Return_Code R b = (if b \<in> set (Code_members R) then Inr b else Inl ValueError)"

text \<open>
  Modelled from the spec: \<open>S_END_OF_CMD\<close> of \<open>constants.py\<close>, which is not among the
  sources; the spec gives the frame terminator as the three bytes \<open>FF FF FF\<close>.
\<close>

definition S_END_OF_CMD :: bytes where
  "S_END_OF_CMD = [0xFF, 0xFF, 0xFF]"

text \<open>
  The return codes of the Nextion instruction set, as one instance of the parameter: the
  concrete table at which theorems with a hypothesis on \<open>R\<close> are instantiated. The
  enumeration is a plain \<open>Enum\<close> there: the sources take \<open>.value\<close> of a member wherever
  they need its integer (the keys of \<open>D_BYTE0_EVENT\<close>, the \<open>%d\<close> of \<open>init\<close>).
\<close>

fun nextion_value :: "Code \<Rightarrow> byte" where
  "nextion_value INVALID_CMD = 0x00"
| "nextion_value CMD_FINISHED = 0x01"
| "nextion_value INVALID_COMPONENT_ID = 0x02"
| "nextion_value INVALID_PAGE_ID = 0x03"
| "nextion_value INVALID_PICTURE_ID = 0x04"
| "nextion_value INVALID_FONT_ID = 0x05"
| "nextion_value INVALID_BAUD = 0x11"
| "nextion_value INVALID_VARIABLE = 0x1A"
| "nextion_value INVALID_OPERATION = 0x1B"
| "nextion_value INVALID_ASSIGN = 0x1C"
| "nextion_value INVALID_EEPROM = 0x1D"
| "nextion_value INVALID_PARAMETER_QUANTITY = 0x1E"
| "nextion_value INVALID_IO = 0x1F"
| "nextion_value INVALID_ESC_CHAR = 0x20"
| "nextion_value INVALID_VAR_NAME_TOO_LONG = 0x23"
| "nextion_value EVENT_TOUCH_HEAD = 0x65"
| "nextion_value CURRENT_PAGE_ID_HEAD = 0x66"
| "nextion_value EVENT_POSITION_HEAD = 0x67"
| "nextion_value EVENT_SLEEP_POSITION_HEAD = 0x68"
| "nextion_value STRING_HEAD = 0x70"
| "nextion_value NUMBER_HEAD = 0x71"
| "nextion_value EVENT_LAUNCHED = 0x88"

definition nextion :: Return where
  "nextion = \<lparr>Code_value = nextion_value, Code_others = [0x86, 0x87, 0x89, 0xFD, 0xFE],
              Code_IntEnum = False, Mode_ALWAYS = 3\<rparr>"

section \<open>events.py\<close>

datatype Touch = Press | Release

text \<open>\<open>Event.Touch(b)\<close>: \<open>Press = 0x01\<close>, \<open>Release = 0x00\<close>, any other value is a \<open>ValueError\<close>.\<close>

definition Event_Touch :: "byte \<Rightarrow> error + Touch" where
  "Event_Touch b = (if b = 0x01 then Inr Press else if b = 0x00 then Inr Release else Inl ValueError)"

text \<open>The event classes, and the objects their \<open>parse\<close> methods build.\<close>

datatype event_class =
    C_TouchEvent | C_CurrentPageIDHeadEvent | C_PositionHeadEvent | C_SleepPositionHeadEvent
  | C_StringHeadEvent | C_NumberHeadEvent | C_CommandSucceeded | C_EventLaunched
  | C_EventStartup | C_EmptyMessage

datatype MsgEvent =
    TouchEvent byte int int Touch
  | CurrentPageIDHeadEvent byte int
  | PositionHeadEvent byte int int Touch
  | SleepPositionHeadEvent byte int int Touch
  | StringHeadEvent byte str
  | NumberHeadEvent byte int int
  | CommandSucceeded
  | EventLaunched
  | EventStartup
  | EmptyMessage

fun class_of :: "MsgEvent \<Rightarrow> event_class" where
  "class_of (TouchEvent code pid cid press_event) = C_TouchEvent"
| "class_of (CurrentPageIDHeadEvent code pid) = C_CurrentPageIDHeadEvent"
| "class_of (PositionHeadEvent code x y tevts) = C_PositionHeadEvent"
| "class_of (SleepPositionHeadEvent code x y tevts) = C_SleepPositionHeadEvent"
| "class_of (StringHeadEvent code v) = C_StringHeadEvent"
| "class_of (NumberHeadEvent code v signed_value) = C_NumberHeadEvent"
| "class_of CommandSucceeded = C_CommandSucceeded"
| "class_of EventLaunched = C_EventLaunched"
| "class_of EventStartup = C_EventStartup"
| "class_of EmptyMessage = C_EmptyMessage"

text \<open>\<open>isempty\<close> and \<open>issuccess\<close>: \<open>AbstractMsgEvent\<close>'s defaults, overridden by \<open>EmptyMessage\<close>.\<close>

fun isempty :: "MsgEvent \<Rightarrow> bool" where
  "isempty EmptyMessage = True"
| "isempty ev = False"

fun issuccess :: "MsgEvent \<Rightarrow> bool" where
  "issuccess EmptyMessage = False"
| "issuccess ev = True"

fun EXPECTED_LENGTH :: "event_class \<Rightarrow> nat option" where
  "EXPECTED_LENGTH C_TouchEvent = Some 7"
| "EXPECTED_LENGTH C_CurrentPageIDHeadEvent = Some 5"
| "EXPECTED_LENGTH C_PositionHeadEvent = Some 9"
| "EXPECTED_LENGTH C_SleepPositionHeadEvent = Some 9"
| "EXPECTED_LENGTH C_StringHeadEvent = None"
| "EXPECTED_LENGTH C_NumberHeadEvent = Some 8"
| "EXPECTED_LENGTH C_CommandSucceeded = Some 4"
| "EXPECTED_LENGTH C_EventLaunched = Some 4"
| "EXPECTED_LENGTH C_EventStartup = None"
| "EXPECTED_LENGTH C_EmptyMessage = Some 0"

fun FIRST_BYTE :: "Return \<Rightarrow> event_class \<Rightarrow> byte option" where
  "FIRST_BYTE R C_TouchEvent = Some (Code_value R EVENT_TOUCH_HEAD)"
| "FIRST_BYTE R C_CurrentPageIDHeadEvent = Some (Code_value R CURRENT_PAGE_ID_HEAD)"
| "FIRST_BYTE R C_PositionHeadEvent = Some (Code_value R EVENT_POSITION_HEAD)"
| "FIRST_BYTE R C_SleepPositionHeadEvent = Some (Code_value R EVENT_SLEEP_POSITION_HEAD)"
| "FIRST_BYTE R C_StringHeadEvent = Some (Code_value R STRING_HEAD)"
| "FIRST_BYTE R C_NumberHeadEvent = Some (Code_value R NUMBER_HEAD)"
| "FIRST_BYTE R C_CommandSucceeded = Some (Code_value R CMD_FINISHED)"
| "FIRST_BYTE R C_EventLaunched = Some (Code_value R EVENT_LAUNCHED)"
| "FIRST_BYTE R C_EventStartup = None"
| "FIRST_BYTE R C_EmptyMessage = None"

definition has_end :: "bytes \<Rightarrow> bool" where
  "has_end msg \<longleftrightarrow> length msg > 3 \<and> drop (length msg - 3) msg = S_END_OF_CMD"

definition ensure_has_end :: "bytes \<Rightarrow> error + unit" where
  "ensure_has_end msg = (if \<not> has_end msg then Inl NexMessageEndException else Inr ())"

definition ensure_has_expected_length :: "event_class \<Rightarrow> bytes \<Rightarrow> error + unit" where
  "ensure_has_expected_length cls msg =
     (case EXPECTED_LENGTH cls of
        None \<Rightarrow> Inr ()
      | Some expected_length \<Rightarrow>
          if length msg \<noteq> expected_length then Inl NexMessageLengthException else Inr ())"

text \<open>
  \<open>ensure_has_expected_first_byte\<close> is called with the member \<open>Return.Code(msg[0])\<close>. When
  it differs from \<open>FIRST_BYTE\<close>, the message of the exception is built first, with \<open>%d\<close>
  for \<open>expected_first_byte\<close> and for \<open>first_byte\<close>: both are members of \<open>Return.Code\<close> (or
  \<open>None\<close>, in a class without \<open>FIRST_BYTE\<close>), so the formatting raises \<open>TypeError\<close> unless
  the enumeration is an \<open>IntEnum\<close>, and only then is \<open>NexMessageFirstByteException\<close> raised.
\<close>

definition ensure_has_expected_first_byte :: "Return \<Rightarrow> event_class \<Rightarrow> byte \<Rightarrow> error + unit" where
  "ensure_has_expected_first_byte R cls first_byte =
     (let expected_first_byte = FIRST_BYTE R cls
      in if Some first_byte \<noteq> expected_first_byte then
           (if Code_IntEnum R \<and> expected_first_byte \<noteq> None
            then Inl NexMessageFirstByteException else Inl TypeError)
         else Inr ())"

text \<open>
  The four statements every \<open>parse\<close> classmethod starts with: \<open>ensure_has_end(msg)\<close>,
  \<open>cls.ensure_has_expected_length(msg)\<close>, \<open>code = Return.Code(msg[0])\<close> and
  \<open>cls.ensure_has_expected_first_byte(msg, code)\<close>, in this order; the result is \<open>code\<close>.
\<close>

definition parse_head :: "Return \<Rightarrow> event_class \<Rightarrow> bytes \<Rightarrow> error + byte" where
  "parse_head R cls msg =
     (case ensure_has_end msg of Inl e \<Rightarrow> Inl e | Inr _ \<Rightarrow>
      case ensure_has_expected_length cls msg of Inl e \<Rightarrow> Inl e | Inr _ \<Rightarrow>
      case Return_Code R (msg ! 0) of Inl e \<Rightarrow> Inl e | Inr code \<Rightarrow>
      case ensure_has_expected_first_byte R cls code of Inl e \<Rightarrow> Inl e | Inr _ \<Rightarrow>
      Inr code)"

definition TouchEvent_parse :: "Return \<Rightarrow> bytes \<Rightarrow> error + MsgEvent" where
  "TouchEvent_parse R msg =
     (case parse_head R C_TouchEvent msg of Inl e \<Rightarrow> Inl e | Inr code \<Rightarrow>
      case Event_Touch (msg ! 3) of Inl e \<Rightarrow> Inl e | Inr tevts \<Rightarrow>
      Inr (TouchEvent code (uint (msg ! 1)) (uint (msg ! 2)) tevts))"

definition CurrentPageIDHeadEvent_parse :: "Return \<Rightarrow> bytes \<Rightarrow> error + MsgEvent" where
  "CurrentPageIDHeadEvent_parse R msg =
     (case parse_head R C_CurrentPageIDHeadEvent msg of Inl e \<Rightarrow> Inl e | Inr code \<Rightarrow>
      Inr (CurrentPageIDHeadEvent code (uint (msg ! 1))))"

definition PositionHeadEvent_parse :: "Return \<Rightarrow> bytes \<Rightarrow> error + MsgEvent" where
  "PositionHeadEvent_parse R msg =
     (case parse_head R C_PositionHeadEvent msg of Inl e \<Rightarrow> Inl e | Inr code \<Rightarrow>
      case Event_Touch (msg ! 5) of Inl e \<Rightarrow> Inl e | Inr tevts \<Rightarrow>
      Inr (PositionHeadEvent code (push_bit 8 (uint (msg ! 1)) + uint (msg ! 2))
             (push_bit 8 (uint (msg ! 3)) + uint (msg ! 4)) tevts))"

definition SleepPositionHeadEvent_parse :: "Return \<Rightarrow> bytes \<Rightarrow> error + MsgEvent" where
  "SleepPositionHeadEvent_parse R msg =
     (case parse_head R C_SleepPositionHeadEvent msg of Inl e \<Rightarrow> Inl e | Inr code \<Rightarrow>
      case Event_Touch (msg ! 5) of Inl e \<Rightarrow> Inl e | Inr tevts \<Rightarrow>
      Inr (SleepPositionHeadEvent code (push_bit 8 (uint (msg ! 1)) + uint (msg ! 2))
             (push_bit 8 (uint (msg ! 3)) + uint (msg ! 4)) tevts))"

definition StringHeadEvent_parse :: "Return \<Rightarrow> bytes \<Rightarrow> error + MsgEvent" where
  "StringHeadEvent_parse R msg =
     (case parse_head R C_StringHeadEvent msg of Inl e \<Rightarrow> Inl e | Inr code \<Rightarrow>
      case utf8_decode (take (length msg - 4) (drop 1 msg)) of Inl e \<Rightarrow> Inl e | Inr v \<Rightarrow>
      Inr (StringHeadEvent code v))"

text \<open>\<open>ctypes.c_int32(value).value\<close> reads the low 32 bits as two's complement.\<close>

definition NumberHeadEvent_parse :: "Return \<Rightarrow> bytes \<Rightarrow> error + MsgEvent" where
  "NumberHeadEvent_parse R msg =
     (case parse_head R C_NumberHeadEvent msg of Inl e \<Rightarrow> Inl e | Inr code \<Rightarrow>
      let v = uint (msg ! 1) + push_bit 8 (uint (msg ! 2)) + push_bit 16 (uint (msg ! 3))
                + push_bit 24 (uint (msg ! 4))
      in Inr (NumberHeadEvent code v (sint (word_of_int v :: 32 word))))"

definition CommandSucceeded_parse :: "Return \<Rightarrow> bytes \<Rightarrow> error + MsgEvent" where
  "CommandSucceeded_parse R msg =
     (case parse_head R C_CommandSucceeded msg of Inl e \<Rightarrow> Inl e | Inr code \<Rightarrow>
      Inr CommandSucceeded)"

definition EventLaunched_parse :: "Return \<Rightarrow> bytes \<Rightarrow> error + MsgEvent" where
  "EventLaunched_parse R msg =
     (case parse_head R C_EventLaunched msg of Inl e \<Rightarrow> Inl e | Inr code \<Rightarrow>
      Inr EventLaunched)"

text \<open>
  \<open>D_BYTE0_EVENT\<close>: the dictionary literal, its entries in the source's order (a later
  entry with the same key replaces an earlier one). Only the eight classes below occur as
  values; \<open>evt_typ.parse(msg)\<close> is \<open>parse_class\<close>.
\<close>

definition D_BYTE0_EVENT :: "Return \<Rightarrow> byte \<rightharpoonup> event_class" where
  "D_BYTE0_EVENT R =
     [Code_value R EVENT_LAUNCHED \<mapsto> C_EventLaunched,
      Code_value R CMD_FINISHED \<mapsto> C_CommandSucceeded,
      Code_value R EVENT_TOUCH_HEAD \<mapsto> C_TouchEvent,
      Code_value R CURRENT_PAGE_ID_HEAD \<mapsto> C_CurrentPageIDHeadEvent,
      Code_value R EVENT_POSITION_HEAD \<mapsto> C_PositionHeadEvent,
      Code_value R EVENT_SLEEP_POSITION_HEAD \<mapsto> C_SleepPositionHeadEvent,
      Code_value R STRING_HEAD \<mapsto> C_StringHeadEvent,
      Code_value R NUMBER_HEAD \<mapsto> C_NumberHeadEvent]"

fun parse_class :: "Return \<Rightarrow> event_class \<Rightarrow> bytes \<Rightarrow> error + MsgEvent" where
  "parse_class R C_TouchEvent msg = TouchEvent_parse R msg"
| "parse_class R C_CurrentPageIDHeadEvent msg = CurrentPageIDHeadEvent_parse R msg"
| "parse_class R C_PositionHeadEvent msg = PositionHeadEvent_parse R msg"
| "parse_class R C_SleepPositionHeadEvent msg = SleepPositionHeadEvent_parse R msg"
| "parse_class R C_StringHeadEvent msg = StringHeadEvent_parse R msg"
| "parse_class R C_NumberHeadEvent msg = NumberHeadEvent_parse R msg"
| "parse_class R C_CommandSucceeded msg = CommandSucceeded_parse R msg"
| "parse_class R C_EventLaunched msg = EventLaunched_parse R msg"
| "parse_class R C_EventStartup msg = Inl AttributeError"
| "parse_class R C_EmptyMessage msg = Inl AttributeError"

definition NEX_EXCEPTIONS :: "Return \<Rightarrow> byte list" where
  "NEX_EXCEPTIONS R = map (Code_value R)
     [INVALID_CMD, CMD_FINISHED, INVALID_COMPONENT_ID, INVALID_PAGE_ID, INVALID_PICTURE_ID,
      INVALID_FONT_ID, INVALID_BAUD, INVALID_VARIABLE, INVALID_OPERATION, INVALID_ASSIGN,
      INVALID_EEPROM, INVALID_PARAMETER_QUANTITY, INVALID_IO, INVALID_ESC_CHAR,
      INVALID_VAR_NAME_TOO_LONG]"

definition MsgEvent_parse :: "Return \<Rightarrow> bytes \<Rightarrow> error + MsgEvent" where
  "MsgEvent_parse R msg =
     (if msg = [] then Inr EmptyMessage
      else
        let first_byte = msg ! 0 in
        case D_BYTE0_EVENT R first_byte of
          Some evt_typ \<Rightarrow> parse_class R evt_typ msg
        | None \<Rightarrow>
            (case Return_Code R first_byte of
               Inl e \<Rightarrow> Inl e
             | Inr code \<Rightarrow>
                 if code = Code_value R INVALID_CMD \<and> msg = [0x00, 0x00, 0x00, 0xFF, 0xFF, 0xFF]
                   then Inr EventStartup
                 else if code \<in> set (NEX_EXCEPTIONS R) then Inl (NexMessageException code)
                 else Inl NotImplementedError))"

text \<open>The classes with a fixed frame length that \<open>D_BYTE0_EVENT\<close> dispatches to.\<close>

definition fixed_length_classes :: "event_class list" where
  "fixed_length_classes =
     [C_TouchEvent, C_CurrentPageIDHeadEvent, C_PositionHeadEvent, C_SleepPositionHeadEvent,
      C_NumberHeadEvent, C_CommandSucceeded, C_EventLaunched]"

section \<open>commands.py\<close>

text \<open>
  The values passed as parameters and property values: Python strings, integers and
  booleans. \<open>py_str\<close> is \<open>str(x)\<close>, which is also what \<open>"%s" % x\<close> and \<open>"{}".format(x)\<close>
  insert.
\<close>

datatype pyval = PStr str | PInt int | PBool bool

fun str_nat :: "nat \<Rightarrow> str" where
  "str_nat n = (if n < 10 then [48 + n] else str_nat (n div 10) @ [48 + n mod 10])"

declare str_nat.simps [simp del]

definition str_int :: "int \<Rightarrow> str" where
  "str_int i = (if i < 0 then 45 # str_nat (nat (- i)) else str_nat (nat i))"

fun py_str :: "pyval \<Rightarrow> str" where
  "py_str (PStr s) = s"
| "py_str (PInt i) = str_int i"
| "py_str (PBool b) = (if b then pystr ''True'' else pystr ''False'')"

text \<open>\<open>",".join(xs)\<close>\<close>

fun join_comma :: "str list \<Rightarrow> str" where
  "join_comma [] = []"
| "join_comma [x] = x"
| "join_comma (x # y # ys) = x @ [44] @ join_comma (y # ys)"

datatype Status = CREATED | SENT | SUCCESSFUL | ERROR

datatype command_class =
    C_Command | C_SetPropertyCommand | C_GetPropertyCommand | C_SendmeCommand | C_PageCommand

text \<open>
  A slot connected to a signal of a command or of a widget. The receiver of a method of
  the widget layer is the page (its index among the session's page objects) or the widget
  (its page and its name); \<open>external\<close> is a slot handed in by the caller.
\<close>

datatype receiver = page_object nat | widget_object nat str

datatype slot =
    on_command_successful receiver
  | on_command_failed receiver
  | on_get_property_command_successful receiver
  | on_set_property_command_successful receiver
  | external nat

text \<open>
  A command object. \<open>successful\<close> and \<open>failed\<close> are the two signals, each the list of the
  slots connected to it, in the order of connection.
\<close>

record CommandBase =
  cmd_class :: command_class
  status :: Status
  command :: bytes
  data_event :: "MsgEvent option"
  property_name :: "str option"
  new_value :: "pyval option"
  successful :: "slot list"
  failed :: "slot list"

text \<open>\<open>DATA_EVENT_CLASSES\<close>; the empty list stands for \<open>None\<close>.\<close>

fun DATA_EVENT_CLASSES :: "command_class \<Rightarrow> event_class list" where
  "DATA_EVENT_CLASSES C_GetPropertyCommand = [C_StringHeadEvent, C_NumberHeadEvent]"
| "DATA_EVENT_CLASSES C_SendmeCommand = [C_CurrentPageIDHeadEvent]"
| "DATA_EVENT_CLASSES c = []"

definition completed :: "CommandBase \<Rightarrow> bool" where
  "completed self \<longleftrightarrow> status self = SUCCESSFUL \<or> status self = ERROR"

definition format_command :: "str \<Rightarrow> pyval list \<Rightarrow> error + bytes" where
  "format_command cmd params =
     (if params \<noteq> [] then
        (let params_str = join_comma (map py_str params)
         in latin1 (cmd @ [32] @ params_str @ [0xFF, 0xFF, 0xFF]))
      else latin1 (cmd @ [0xFF, 0xFF, 0xFF]))"

text \<open>\<open>CommandBase.__init__\<close>, for the class \<open>c\<close> that is being constructed.\<close>

definition CommandBase_init :: "command_class \<Rightarrow> str \<Rightarrow> pyval list \<Rightarrow> error + CommandBase" where
  "CommandBase_init c cmd params =
     (case format_command cmd params of
        Inl e \<Rightarrow> Inl e
      | Inr data \<Rightarrow>
          Inr \<lparr>cmd_class = c, status = CREATED, command = data, data_event = None,
               property_name = None, new_value = None, successful = [], failed = []\<rparr>)"

definition connect_signals :: "slot option \<Rightarrow> slot option \<Rightarrow> CommandBase \<Rightarrow> CommandBase" where
  "connect_signals on_successful on_failed self =
     (let self1 = (case on_successful of None \<Rightarrow> self
                   | Some f \<Rightarrow> self\<lparr>successful := successful self @ [f]\<rparr>)
      in case on_failed of None \<Rightarrow> self1
         | Some f \<Rightarrow> self1\<lparr>failed := failed self1 @ [f]\<rparr>)"

text \<open>\<open>send\<close>: write the wire bytes to the transport (\<open>tx\<close> lists what was written), then \<open>SENT\<close>.\<close>

definition CommandBase_send :: "CommandBase \<Rightarrow> bytes list \<Rightarrow> CommandBase \<times> bytes list" where
  "CommandBase_send self tx = (self\<lparr>status := SENT\<rparr>, tx @ [command self])"

definition CommandBase_reset :: "CommandBase \<Rightarrow> CommandBase" where
  "CommandBase_reset self = self\<lparr>status := CREATED, data_event := None\<rparr>"

text \<open>
  \<open>event\<close>: the command after the event, whether it is completed, and the signal it
  emitted, if any. \<open>finalize\<close> does nothing in every class of the sources.
\<close>

datatype emission = emit_successful | emit_failed

definition CommandBase_event :: "CommandBase \<Rightarrow> MsgEvent \<Rightarrow> CommandBase \<times> bool \<times> emission option" where
  "CommandBase_event self event =
     (if DATA_EVENT_CLASSES (cmd_class self) \<noteq> [] \<and> class_of event \<in> set (DATA_EVENT_CLASSES (cmd_class self))
        then (self\<lparr>data_event := Some event\<rparr>, False, None)
      else if class_of event = C_CommandSucceeded
        then (self\<lparr>status := SUCCESSFUL\<rparr>, True, Some emit_successful)
      else (self\<lparr>status := ERROR\<rparr>, True, Some emit_failed))"

definition Command :: "str \<Rightarrow> pyval list \<Rightarrow> error + CommandBase" where
  "Command cmd params = CommandBase_init C_Command cmd params"

definition SetPropertyCommand ::
  "str \<Rightarrow> str \<Rightarrow> pyval \<Rightarrow> slot option \<Rightarrow> slot option \<Rightarrow> error + CommandBase" where
  "SetPropertyCommand oid name v on_successful on_failed =
     (let v' = (case v of PBool b \<Rightarrow> PInt (if b then 1 else 0) | _ \<Rightarrow> v)
      in case CommandBase_init C_SetPropertyCommand (oid @ [46] @ name @ [61] @ py_str v') [] of
           Inl e \<Rightarrow> Inl e
         | Inr self \<Rightarrow>
             Inr (connect_signals on_successful on_failed
                    (self\<lparr>property_name := Some name, new_value := Some v'\<rparr>)))"

definition GetPropertyCommand ::
  "str \<Rightarrow> str \<Rightarrow> slot option \<Rightarrow> slot option \<Rightarrow> error + CommandBase" where
  "GetPropertyCommand oid name on_successful on_failed =
     (case CommandBase_init C_GetPropertyCommand (pystr ''get '' @ oid @ [46] @ name) [] of
        Inl e \<Rightarrow> Inl e
      | Inr self \<Rightarrow>
          Inr (connect_signals on_successful on_failed (self\<lparr>property_name := Some name\<rparr>)))"

definition SendmeCommand :: "slot option \<Rightarrow> slot option \<Rightarrow> error + CommandBase" where
  "SendmeCommand on_successful on_failed =
     (case CommandBase_init C_SendmeCommand (pystr ''sendme'') [] of
        Inl e \<Rightarrow> Inl e
      | Inr self \<Rightarrow> Inr (connect_signals on_successful on_failed self))"

definition PageCommand :: "pyval \<Rightarrow> slot option \<Rightarrow> slot option \<Rightarrow> error + CommandBase" where
  "PageCommand page_number on_successful on_failed =
     (case CommandBase_init C_PageCommand (pystr ''page'') [page_number] of
        Inl e \<Rightarrow> Inl e
      | Inr self \<Rightarrow> Inr (connect_signals on_successful on_failed self))"

text \<open>The command \<open>get n0.val\<close> as \<open>GetPropertyCommand("n0", "val")\<close> builds it, and a data event.\<close>

definition get_n0_val :: CommandBase where
  "get_n0_val =
     \<lparr>cmd_class = C_GetPropertyCommand, status = CREATED,
      command = [0x67, 0x65, 0x74, 0x20, 0x6E, 0x30, 0x2E, 0x76, 0x61, 0x6C, 0xFF, 0xFF, 0xFF],
      data_event = None, property_name = Some (pystr ''val''), new_value = None,
      successful = [], failed = []\<rparr>"

section \<open>widgets.py and interfaces.py: the addressing registry\<close>

datatype widget_class =
    NexButton | NexCheckbox | NexCrop | NexDualStateButton | NexGauge | NexHotspot | NexNumber
  | NexPage_class | NexPicture | NexProgressBar | NexQRcode | NexRadio | NexScrollText
  | NexSlider | NexText | NexWaveform

text \<open>
  \<open>typ.lower()\<close>, as far as a key of \<open>D_FACTORY\<close> can tell: the keys are lower-case ASCII
  words; \<open>A\<close> to \<open>Z\<close> lower to \<open>a\<close> to \<open>z\<close>, the Kelvin sign U+212A lowers to \<open>k\<close>, and every
  other code point lowers to code points outside ASCII or to itself.
\<close>

definition lower :: "str \<Rightarrow> str" where
  "lower s = map (\<lambda>c. if 65 \<le> c \<and> c \<le> 90 then c + 32 else if c = 0x212A then 107 else c) s"

definition D_FACTORY :: "(str \<times> widget_class) list" where
  "D_FACTORY =
     [(pystr ''button'', NexButton), (pystr ''checkbox'', NexCheckbox), (pystr ''crop'', NexCrop),
      (pystr ''dualstatebutton'', NexDualStateButton), (pystr ''gauge'', NexGauge),
      (pystr ''hotspot'', NexHotspot), (pystr ''number'', NexNumber),
      (pystr ''page'', NexPage_class), (pystr ''picture'', NexPicture),
      (pystr ''progressbar'', NexProgressBar), (pystr ''qrcode'', NexQRcode),
      (pystr ''radio'', NexRadio), (pystr ''scrolltext'', NexScrollText),
      (pystr ''slider'', NexSlider), (pystr ''text'', NexText), (pystr ''waveform'', NexWaveform)]"

text \<open>
  A widget object: its class, name, page ID and component ID. A page is a widget with two
  dictionaries of hooked widgets, kept in insertion order as a Python \<open>dict\<close> and an
  \<open>OrderedDict\<close> keep them, and the flag \<open>_page_switch_in_progress\<close>. The property cache and
  the widget's own deque of commands are bookkeeping of the widget layer and are not part
  of the model.
\<close>

record NexWidget =
  widget_class :: widget_class
  name :: str
  pid :: "int option"
  cid :: "int option"

record NexPage = NexWidget +
  D_WIDGETS_BY_NAME :: "(str \<times> NexWidget) list"
  D_WIDGETS_BY_CID :: "(int \<times> NexWidget) list"
  page_switch_in_progress :: bool

text \<open>\<open>WidgetFactory.create\<close> with a type name: the class is looked up, a \<open>KeyError\<close> if absent.\<close>

definition WidgetFactory_create :: "str \<Rightarrow> str \<Rightarrow> int option \<Rightarrow> int option \<Rightarrow> error + NexWidget" where
  "WidgetFactory_create typ nm pid' cid' =
     (case map_of D_FACTORY (lower typ) of
        None \<Rightarrow> Inl KeyError
      | Some c \<Rightarrow>
          Inr \<lparr>widget_class = c, name = nm, pid = pid',
               cid = (if c = NexPage_class then None else cid')\<rparr>)"

definition new_NexPage :: "str \<Rightarrow> int option \<Rightarrow> NexPage" where
  "new_NexPage nm pid' =
     \<lparr>widget_class = NexPage_class, name = nm, pid = pid', cid = None,
      D_WIDGETS_BY_NAME = [], D_WIDGETS_BY_CID = [], page_switch_in_progress = False\<rparr>"

text \<open>
  \<open>NexPage.hook_widget\<close>: the result or the exception, and the page afterwards.
  \<open>cid in self.D_WIDGETS_BY_CID\<close> is false for \<open>None\<close>, which is never stored as a key.
\<close>

definition hook_widget ::
  "str \<Rightarrow> str \<Rightarrow> int option \<Rightarrow> NexPage \<Rightarrow> (error + NexWidget) \<times> NexPage" where
  "hook_widget widget_type nm cid' self =
     (if nm \<in> set (map fst (D_WIDGETS_BY_NAME self)) then (Inl NexComponentNameException, self)
      else if (case cid' of None \<Rightarrow> False | Some i \<Rightarrow> i \<in> set (map fst (D_WIDGETS_BY_CID self)))
        then (Inl NexComponentIdException, self)
      else
        (case WidgetFactory_create widget_type nm (pid self) cid' of
           Inl e \<Rightarrow> (Inl e, self)
         | Inr widget \<Rightarrow>
             let self1 = self\<lparr>D_WIDGETS_BY_NAME := D_WIDGETS_BY_NAME self @ [(nm, widget)]\<rparr>;
                 self2 = (case cid' of None \<Rightarrow> self1
                          | Some i \<Rightarrow> self1\<lparr>D_WIDGETS_BY_CID := D_WIDGETS_BY_CID self1 @ [(i, widget)]\<rparr>)
             in (Inr widget, self2)))"


fun REFRESH_VARIABLES :: "widget_class \<Rightarrow> str list" where
  "REFRESH_VARIABLES c = []"

text \<open>The classes that inherit \<open>ITouchable\<close> and so have the signals \<open>pressed\<close> and \<open>released\<close>.\<close>

fun touchable :: "widget_class \<Rightarrow> bool" where
  "touchable NexPage_class = False"
| "touchable NexPicture = False"
| "touchable NexQRcode = False"
| "touchable c = True"

section \<open>device.py: the session\<close>

text \<open>
  The session. The transport is known by what it does: \<open>rx\<close> lists what the coming calls of
  \<open>read_next\<close> return (an empty entry is a call that finds no frame; after the list every
  call returns the empty string), \<open>raw\<close> lists what the coming calls of \<open>read_all\<close> return,
  \<open>tx\<close> lists what was written. Page objects are shared between the two dictionaries and
  \<open>_current_page\<close>, so they live in \<open>pages\<close> and are referred to by their index. The deque
  \<open>_commands\<close> is written from its right end: the head of \<open>commands\<close> is \<open>self._commands[-1]\<close>,
  the oldest command. Every entry is a command object of its own (the widget layer and
  \<open>init\<close> build a new command for each request); the session's own \<open>SendmeCommand\<close> and
  \<open>get_current_page\<close> are outside the model. \<open>log\<close> records the signals emitted.
\<close>

datatype notification =
    page_changed int
  | pressed NexWidget
  | released NexWidget
  | signal emission CommandBase

record NexDevice =
  rx :: "bytes list"
  raw :: "bytes list"
  tx :: "bytes list"
  initialized :: bool
  current_page :: "nat option"
  pages :: "NexPage list"
  pages_by_name :: "(str \<times> nat) list"
  pages_by_id :: "(int \<times> nat) list"
  commands :: "CommandBase list"
  log :: "notification list"

text \<open>The deque operations, on the list written from the right end.\<close>

definition appendleft :: "'a \<Rightarrow> 'a list \<Rightarrow> 'a list" where
  "appendleft x q = q @ [x]"

definition rotate_deque :: "'a list \<Rightarrow> 'a list" where
  "rotate_deque q = (case q of [] \<Rightarrow> [] | x # xs \<Rightarrow> xs @ [x])"

text \<open>A key of \<open>ChainMap(by_name, by_id)\<close>: a name or a numeric ID.\<close>

datatype key = name_key str | id_key int

definition pages_by_name_or_id :: "NexDevice \<Rightarrow> key \<Rightarrow> nat option" where
  "pages_by_name_or_id dev k =
     (case k of name_key n \<Rightarrow> map_of (pages_by_name dev) n | id_key i \<Rightarrow> map_of (pages_by_id dev) i)"

definition widgets_by_name_or_id :: "NexPage \<Rightarrow> key \<Rightarrow> NexWidget option" where
  "widgets_by_name_or_id page k =
     (case k of name_key n \<Rightarrow> map_of (D_WIDGETS_BY_NAME page) n
      | id_key i \<Rightarrow> map_of (D_WIDGETS_BY_CID page) i)"

definition on_enqueue_command :: "CommandBase \<Rightarrow> NexDevice \<Rightarrow> NexDevice" where
  "on_enqueue_command c dev = dev\<lparr>commands := appendleft c (commands dev)\<rparr>"

text \<open>
  \<open>NexWidget.send_command\<close>: connect the widget's two slots, then emit \<open>enqueue_command\<close>,
  which \<open>hook_widget\<close> and \<open>hook_page\<close> have connected to the session's \<open>_on_enqueue_command\<close>.
\<close>

definition send_command :: "receiver \<Rightarrow> CommandBase \<Rightarrow> NexDevice \<Rightarrow> NexDevice" where
  "send_command self c dev =
     on_enqueue_command
       (c\<lparr>failed := failed c @ [on_command_failed self],
          successful := successful c @ [on_command_successful self]\<rparr>) dev"

text \<open>\<open>NexDevice.hook_page\<close>: the new page's reference or the exception, and the session afterwards.\<close>

definition hook_page :: "str \<Rightarrow> int option \<Rightarrow> NexDevice \<Rightarrow> (error + nat) \<times> NexDevice" where
  "hook_page nm pid' dev =
     (if nm \<in> set (map fst (pages_by_name dev)) then (Inl NexComponentNameException, dev)
      else if (case pid' of None \<Rightarrow> False | Some i \<Rightarrow> i \<in> set (map fst (pages_by_id dev)))
        then (Inl NexComponentIdException, dev)
      else
        let page = length (pages dev);
            dev1 = dev\<lparr>pages := pages dev @ [new_NexPage nm pid']\<rparr>;
            dev2 = (case pid' of None \<Rightarrow> dev1
                    | Some i \<Rightarrow> dev1\<lparr>pages_by_id := pages_by_id dev1 @ [(i, page)]\<rparr>);
            dev3 = dev2\<lparr>pages_by_name := pages_by_name dev2 @ [(nm, page)]\<rparr>
        in (Inr page, dev3))"

text \<open>\<open>hook_widget\<close> called on the page object \<open>p\<close> of the session.\<close>

definition hook_widget_on ::
  "nat \<Rightarrow> str \<Rightarrow> str \<Rightarrow> int option \<Rightarrow> NexDevice \<Rightarrow> (error + NexWidget) \<times> NexDevice" where
  "hook_widget_on p widget_type nm cid' dev =
     (case hook_widget widget_type nm cid' (pages dev ! p) of
        (r, page) \<Rightarrow> (r, dev\<lparr>pages := (pages dev)[p := page]\<rparr>))"



text \<open>
  \<open>NxInterface._refresh_internal\<close> for each variable of the list, as \<open>refresh\<close> and
  \<open>onetime_refresh\<close> run it for a widget hooked on page \<open>p\<close>.
\<close>

fun refresh_variables :: "nat \<Rightarrow> NexWidget \<Rightarrow> str list \<Rightarrow> NexDevice \<Rightarrow> (error + unit) \<times> NexDevice" where
  "refresh_variables p w [] dev = (Inr (), dev)"
| "refresh_variables p w (var # vars) dev =
     (let self = widget_object p (name w)
      in case GetPropertyCommand (name w) var (Some (on_get_property_command_successful self)) None of
           Inl e \<Rightarrow> (Inl e, dev)
         | Inr c \<Rightarrow> refresh_variables p w vars (send_command self c dev))"

text \<open>
  The comprehension over \<open>self.widgets\<close> in \<open>NexPage.refresh\<close> and \<open>NexPage.onetime_refresh\<close>;
  \<open>vars\<close> is \<open>REFRESH_VARIABLES\<close> or \<open>ONETIME_REFRESH_VARIABLES\<close>.
\<close>

fun refresh_widgets ::
  "nat \<Rightarrow> (widget_class \<Rightarrow> str list) \<Rightarrow> NexWidget list \<Rightarrow> NexDevice \<Rightarrow> (error + unit) \<times> NexDevice" where
  "refresh_widgets p vars [] dev = (Inr (), dev)"
| "refresh_widgets p vars (w # ws) dev =
     (case refresh_variables p w (vars (widget_class w)) dev of
        (Inl e, dev1) \<Rightarrow> (Inl e, dev1)
      | (Inr _, dev1) \<Rightarrow> refresh_widgets p vars ws dev1)"

definition NexPage_refresh :: "nat \<Rightarrow> NexDevice \<Rightarrow> (error + unit) \<times> NexDevice" where
  "NexPage_refresh p dev =
     (let self = pages dev ! p
      in if \<not> page_switch_in_progress self
         then refresh_widgets p REFRESH_VARIABLES (map snd (D_WIDGETS_BY_NAME self)) dev
         else (Inr (), dev))"


text \<open>
  The slots of the widget layer, run when a command emits \<open>successful\<close> or \<open>failed\<close>. Only
  \<open>NexPage._on_command_successful\<close> changes the session: it clears the page's flag when
  the sender is a page command. The other slots update what the model leaves out.
\<close>

fun run_slot :: "CommandBase \<Rightarrow> slot \<Rightarrow> NexDevice \<Rightarrow> NexDevice" where
  "run_slot sender (on_command_successful (page_object p)) dev =
     (if cmd_class sender = C_PageCommand \<and> p < length (pages dev)
      then dev\<lparr>pages := (pages dev)[p := (pages dev ! p)\<lparr>page_switch_in_progress := False\<rparr>]\<rparr>
      else dev)"
| "run_slot sender s dev = dev"

definition emit :: "emission option \<Rightarrow> CommandBase \<Rightarrow> NexDevice \<Rightarrow> NexDevice" where
  "emit sig sender dev =
     (case sig of
        None \<Rightarrow> dev
      | Some s \<Rightarrow>
          fold (run_slot sender)
            (case s of emit_successful \<Rightarrow> successful sender | emit_failed \<Rightarrow> failed sender)
            (dev\<lparr>log := log dev @ [signal s sender]\<rparr>))"

text \<open>
  \<open>poll\<close>, first loop: read frames until \<open>read_next\<close> returns the empty string, parsing each.
  The result is the list of events, or the exception of \<open>MsgEvent.parse\<close>, and what is left
  of \<open>rx\<close>.
\<close>

fun poll_read :: "Return \<Rightarrow> bytes list \<Rightarrow> MsgEvent list \<Rightarrow> (error + MsgEvent list) \<times> bytes list" where
  "poll_read R [] events = (Inr events, [])"
| "poll_read R (data # rest) events =
     (if data \<noteq> [] then
        (case MsgEvent_parse R data of
           Inl e \<Rightarrow> (Inl e, rest)
         | Inr event \<Rightarrow> poll_read R rest (events @ [event]))
      else (Inr events, rest))"

text \<open>
  The touch branch of the second loop. A page or widget that is not hooked is a \<open>KeyError\<close>,
  which is caught; a hooked widget without the signals is an \<open>AttributeError\<close>, which is not.
\<close>

definition dispatch_touch :: "MsgEvent \<Rightarrow> NexDevice \<Rightarrow> (error + unit) \<times> NexDevice" where
  "dispatch_touch event dev =
     (case event of
        TouchEvent code pid' cid' press_event \<Rightarrow>
          (case pages_by_name_or_id dev (id_key pid') of
             None \<Rightarrow> (Inr (), dev)
           | Some p \<Rightarrow>
               (case widgets_by_name_or_id (pages dev ! p) (id_key cid') of
                  None \<Rightarrow> (Inr (), dev)
                | Some widget \<Rightarrow>
                    if \<not> touchable (widget_class widget) then (Inl AttributeError, dev)
                    else if press_event = Press
                      then (Inr (), dev\<lparr>log := log dev @ [pressed widget]\<rparr>)
                    else (Inr (), dev\<lparr>log := log dev @ [released widget]\<rparr>)))
      | _ \<Rightarrow> (Inr (), dev))"

text \<open>
  The response branch of the second loop: \<open>while self._commands: ...\<close>. Only the \<open>SENT\<close> branch
  leaves the loop; the other two rotate the deque and go round again. The loop need not
  end, so the function is partial: \<open>None\<close> is the loop that runs forever.
\<close>

partial_function (option) scan :: "MsgEvent \<Rightarrow> NexDevice \<Rightarrow> NexDevice option" where
  "scan event dev =
     (case commands dev of
        [] \<Rightarrow> Some dev
      | c # rest \<Rightarrow>
          if status c = CREATED then scan event (dev\<lparr>commands := rotate_deque (commands dev)\<rparr>)
          else if status c = SENT then
            (case CommandBase_event c event of
               (c', completed', sig) \<Rightarrow>
                 let dev1 = emit sig c' (dev\<lparr>commands := c' # rest\<rparr>)
                 in Some (if completed' then dev1\<lparr>commands := tl (commands dev1)\<rparr> else dev1))
          else scan event (dev\<lparr>commands := rotate_deque (commands dev)\<rparr>))"

declare scan.simps [code]

fun poll_dispatch :: "MsgEvent list \<Rightarrow> NexDevice \<Rightarrow> ((error + unit) \<times> NexDevice) option" where
  "poll_dispatch [] dev = Some (Inr (), dev)"
| "poll_dispatch (event # events) dev =
     (if class_of event = C_TouchEvent then
        (case dispatch_touch event dev of
           (Inl e, dev1) \<Rightarrow> Some (Inl e, dev1)
         | (Inr _, dev1) \<Rightarrow> poll_dispatch events dev1)
      else
        (case scan event dev of
           None \<Rightarrow> None
         | Some dev1 \<Rightarrow> poll_dispatch events dev1))"

text \<open>The transmit step: the oldest command is sent when its status is \<open>CREATED\<close>.\<close>

definition poll_send :: "NexDevice \<Rightarrow> NexDevice" where
  "poll_send dev =
     (case commands dev of
        [] \<Rightarrow> dev
      | c # rest \<Rightarrow>
          if status c = CREATED then
            (case CommandBase_send c (tx dev) of
               (c', tx') \<Rightarrow> dev\<lparr>commands := c' # rest, tx := tx'\<rparr>)
          else dev)"

text \<open>
  \<open>NexDevice.poll\<close>: the value returned or the exception raised, and the session afterwards;
  \<open>None\<close> when the call does not return. \<open>NexDevice.refresh\<close> does nothing.
\<close>

definition poll :: "Return \<Rightarrow> NexDevice \<Rightarrow> ((error + bool) \<times> NexDevice) option" where
  "poll R dev =
     (case poll_read R (rx dev) [] of
        (Inl e, rest) \<Rightarrow> Some (Inl e, dev\<lparr>rx := rest\<rparr>)
      | (Inr events, rest) \<Rightarrow>
          (case poll_dispatch events (dev\<lparr>rx := rest\<rparr>) of
             None \<Rightarrow> None
           | Some (Inl e, dev1) \<Rightarrow> Some (Inl e, dev1)
           | Some (Inr _, dev1) \<Rightarrow>
               let dev2 = poll_send dev1
               in if initialized dev2 \<and> commands dev2 = [] then
                    (case current_page dev2 of
                       None \<Rightarrow> Some (Inr (commands dev2 = []), dev2)
                     | Some p \<Rightarrow>
                         (case NexPage_refresh p dev2 of
                            (Inl e, dev3) \<Rightarrow> Some (Inl e, dev3)
                          | (Inr _, dev3) \<Rightarrow> Some (Inr (commands dev3 = []), dev3)))
                  else Some (Inr (commands dev2 = []), dev2)))"






section \<open>Notions used to state the properties\<close>

text \<open>The session that \<open>NexDevice.__init__\<close> builds, before any input.\<close>

definition new_NexDevice :: NexDevice where
  "new_NexDevice =
     \<lparr>rx = [], raw = [], tx = [], initialized = False, current_page = None,
      pages = [], pages_by_name = [], pages_by_id = [], commands = [], log = []\<rparr>"

text \<open>
  The single-in-flight shape of the deque: the oldest command is \<open>CREATED\<close> or \<open>SENT\<close>, and
  every other command is \<open>CREATED\<close>.
\<close>

definition one_in_flight :: "CommandBase list \<Rightarrow> bool" where
  "one_in_flight q =
     (case q of
        [] \<Rightarrow> True
      | c # rest \<Rightarrow> (status c = CREATED \<or> status c = SENT) \<and> list_all (\<lambda>x. status x = CREATED) rest)"

text \<open>The wire bytes that wait to be transmitted, oldest first.\<close>

definition pending :: "CommandBase list \<Rightarrow> bytes list" where
  "pending q = map command (filter (\<lambda>c. status c = CREATED) q)"

text \<open>
  What can happen to a session between two moments, with the wire bytes of the commands
  enqueued on the way: a call of \<open>poll\<close> returns or raises, a new command (status \<open>CREATED\<close>)
  is enqueued, or something changes that is neither the deque nor the transport's output
  (frames arrive, pages are hooked, flags change).
\<close>

inductive evolves :: "Return \<Rightarrow> NexDevice \<Rightarrow> bytes list \<Rightarrow> NexDevice \<Rightarrow> bool" for R :: Return where
  evolves_refl: "evolves R dev [] dev"
| evolves_poll: "evolves R dev es dev1 \<Longrightarrow> poll R dev1 = Some (r, dev2) \<Longrightarrow> evolves R dev es dev2"
| evolves_enqueue:
    "evolves R dev es dev1 \<Longrightarrow> status c = CREATED \<Longrightarrow>
     evolves R dev (es @ [command c]) (on_enqueue_command c dev1)"
| evolves_other:
    "evolves R dev es dev1 \<Longrightarrow> commands dev2 = commands dev1 \<Longrightarrow> tx dev2 = tx dev1 \<Longrightarrow>
     evolves R dev es dev2"

text \<open>The command that \<open>Command(s)\<close> builds from an ASCII text, for the examples.\<close>

definition plain_command :: "string \<Rightarrow> CommandBase" where
  "plain_command s =
     \<lparr>cmd_class = C_Command, status = CREATED, command = map of_char s @ [0xFF, 0xFF, 0xFF],
      data_event = None, property_name = None, new_value = None, successful = [], failed = []\<rparr>"

definition created :: "CommandBase list \<Rightarrow> CommandBase list" where
  "created q = filter (\<lambda>c. status c = CREATED) q"

text \<open>The page objects, their flags put aside: what hooking builds and polling never changes.\<close>

definition unflag :: "NexPage list \<Rightarrow> NexPage list" where
  "unflag ps = map (\<lambda>p. p\<lparr>page_switch_in_progress := False\<rparr>) ps"

definition same_registry :: "NexDevice \<Rightarrow> NexDevice \<Rightarrow> bool" where
  "same_registry d d' \<longleftrightarrow>
     pages_by_id d' = pages_by_id d \<and> pages_by_name d' = pages_by_name d \<and>
     unflag (pages d') = unflag (pages d) \<and> initialized d' = initialized d"

text \<open>A new session on which the commands A, B and C were enqueued, in this order.\<close>

definition abc_session :: NexDevice where
  "abc_session =
     on_enqueue_command (plain_command ''C'')
       (on_enqueue_command (plain_command ''B'')
          (on_enqueue_command (plain_command ''A'') new_NexDevice))"


text \<open>
  A session with two pages, \<open>main\<close> (ID 0) and \<open>second\<close> (ID 1), and the text widget \<open>t0\<close> (ID 1)
  hooked on the second page.
\<close>

definition example_page0 :: NexPage where
  "example_page0 = new_NexPage (pystr ''main'') (Some 0)"

definition example_t0 :: NexWidget where
  "example_t0 = \<lparr>widget_class = NexText, name = pystr ''t0'', pid = Some 1, cid = Some 1\<rparr>"

definition example_page1 :: NexPage where
  "example_page1 =
     (new_NexPage (pystr ''second'') (Some 1))
       \<lparr>D_WIDGETS_BY_NAME := [(pystr ''t0'', example_t0)], D_WIDGETS_BY_CID := [(1, example_t0)]\<rparr>"

definition example_session :: NexDevice where
  "example_session =
     new_NexDevice\<lparr>pages := [example_page0, example_page1],
                   pages_by_name := [(pystr ''main'', 0), (pystr ''second'', 1)],
                   pages_by_id := [(0, 0), (1, 1)]\<rparr>"




text \<open>
  A registry as \<open>hook_page\<close> builds it: the IDs are distinct, and each ID refers to a page
  object that carries this ID.
\<close>

definition registry_ok :: "NexDevice \<Rightarrow> bool" where
  "registry_ok dev \<longleftrightarrow>
     distinct (map fst (pages_by_id dev)) \<and>
     list_all (\<lambda>(i, p). p < length (pages dev) \<and> pid (pages dev ! p) = Some i) (pages_by_id dev)"

text \<open>No command has emitted \<open>failed\<close>.\<close>

fun is_failure :: "notification \<Rightarrow> bool" where
  "is_failure (signal emit_failed c) = True"
| "is_failure n = False"

definition no_failure :: "NexDevice \<Rightarrow> bool" where
  "no_failure dev \<longleftrightarrow> list_all (\<lambda>n. \<not> is_failure n) (log dev)"



text \<open>The log of \<open>d'\<close> continues the log of \<open>d\<close>.\<close>

definition log_extends :: "NexDevice \<Rightarrow> NexDevice \<Rightarrow> bool" where
  "log_extends d d' \<longleftrightarrow> (\<exists>ns. log d' = log d @ ns)"












section \<open>Properties of the frame parser\<close>

lemma parse_head_deviating:
  assumes "EXPECTED_LENGTH cls = Some n" and "FIRST_BYTE R cls = Some c"
    and "length msg \<noteq> n \<or> take 1 msg \<noteq> [c]"
  shows "parse_head R cls msg =
     (if \<not> has_end msg then Inl NexMessageEndException
      else if length msg \<noteq> n then Inl NexMessageLengthException
      else if msg ! 0 \<notin> set (Code_members R) then Inl ValueError
      else if Code_IntEnum R then Inl NexMessageFirstByteException
      else Inl TypeError)"
proof (cases "has_end msg")
  case False
  then show ?thesis by (simp add: parse_head_def ensure_has_end_def)
next
  case True
  then have len: "length msg > 3" by (simp add: has_end_def)
  then obtain b bs where msg: "msg = b # bs" by (cases msg) auto
  show ?thesis
  proof (cases "length msg = n")
    case False
    with True assms(1) show ?thesis
      by (simp add: parse_head_def ensure_has_end_def ensure_has_expected_length_def)
  next
    case lenok: True
    with assms(3) msg have "b \<noteq> c" by auto
    with True lenok assms(1,2) msg show ?thesis
      by (simp add: parse_head_def ensure_has_end_def ensure_has_expected_length_def
          Return_Code_def ensure_has_expected_first_byte_def)
  qed
qed

lemma parse_class_head:
  assumes "cls \<in> set fixed_length_classes" and "parse_head R cls msg = Inl e"
  shows "parse_class R cls msg = Inl e"
  using assms
  by (auto simp: fixed_length_classes_def TouchEvent_parse_def CurrentPageIDHeadEvent_parse_def
      PositionHeadEvent_parse_def SleepPositionHeadEvent_parse_def NumberHeadEvent_parse_def
      CommandSucceeded_parse_def EventLaunched_parse_def)

lemmas nextion_parse_simps =
  MsgEvent_parse_def D_BYTE0_EVENT_def TouchEvent_parse_def CommandSucceeded_parse_def
  EventLaunched_parse_def NumberHeadEvent_parse_def StringHeadEvent_parse_def
  CurrentPageIDHeadEvent_parse_def parse_head_def
  ensure_has_end_def has_end_def S_END_OF_CMD_def ensure_has_expected_length_def
  Return_Code_def Code_members_def Code_names_def nextion_def NEX_EXCEPTIONS_def
  ensure_has_expected_first_byte_def Event_Touch_def fixed_length_classes_def

text \<open>
  What the parsers of the seven fixed-length classes do with a frame that ends in
  \<open>FF FF FF\<close>. A wrong length raises the length error, as the length check comes before
  anything reads the leading byte. With the right length and a leading byte that is not
  the code of the class, no event is returned either, but the first-byte error is raised
  only when the byte is a value of \<open>Return.Code\<close> and the enumeration is an \<open>IntEnum\<close>:
  \<open>Return.Code(msg[0])\<close> raises \<open>ValueError\<close> for any other byte, and the message of the
  first-byte error cannot be formatted for the members of a plain \<open>Enum\<close>.
\<close>

lemma fixed_length_wrong_length:
  assumes "cls \<in> set fixed_length_classes" and "EXPECTED_LENGTH cls = Some n"
    and "has_end msg" and "length msg \<noteq> n"
  shows "parse_class R cls msg = Inl NexMessageLengthException"
proof -
  from assms(2-4) have "parse_head R cls msg = Inl NexMessageLengthException"
    by (simp add: parse_head_def ensure_has_end_def ensure_has_expected_length_def)
  with assms(1) show ?thesis by (rule parse_class_head)
qed

lemma fixed_length_wrong_first_byte:
  assumes "cls \<in> set fixed_length_classes" and "EXPECTED_LENGTH cls = Some n"
    and "FIRST_BYTE R cls = Some c" and "has_end msg" and "length msg = n" and "msg ! 0 \<noteq> c"
  shows "parse_class R cls msg =
     (if msg ! 0 \<notin> set (Code_members R) then Inl ValueError
      else if Code_IntEnum R then Inl NexMessageFirstByteException
      else Inl TypeError)"
proof -
  from assms(4) have "length msg > 3" by (simp add: has_end_def)
  then obtain b bs where msg: "msg = b # bs" by (cases msg) auto
  with assms(6) have dev: "length msg \<noteq> n \<or> take 1 msg \<noteq> [c]" by simp
  from parse_head_deviating [OF assms(2,3) dev] assms(4,5)
  have "\<exists>e. parse_head R cls msg = Inl e \<and>
          e = (if msg ! 0 \<notin> set (Code_members R) then ValueError
               else if Code_IntEnum R then NexMessageFirstByteException else TypeError)"
    by simp
  then obtain e where e: "parse_head R cls msg = Inl e"
    and v: "e = (if msg ! 0 \<notin> set (Code_members R) then ValueError
               else if Code_IntEnum R then NexMessageFirstByteException else TypeError)"
    by blast
  from parse_class_head [OF assms(1) e] v show ?thesis by simp
qed

text \<open>
  C6 fails on the code in its first-byte half. \<open>TouchEvent.parse\<close> is given two terminated
  frames of the right length, seven bytes, whose leading byte is not the touch code
  \<open>0x65\<close>. For \<open>42 01 02 01 FF FF FF\<close> the byte is no value of \<open>Return.Code\<close>, and
  \<open>Return.Code(msg[0])\<close> raises \<open>ValueError\<close> before the first-byte check is reached. For
  \<open>66 01 02 01 FF FF FF\<close> the first-byte check is reached and fails, and building the
  message of \<open>NexMessageFirstByteException\<close> raises \<open>TypeError\<close>. Neither call raises the
  first-byte error that \<open>ensure_has_expected_first_byte\<close> is written to raise.
\<close>

theorem first_byte_error_not_raised:
  "TouchEvent_parse nextion [0x42, 0x01, 0x02, 0x01, 0xFF, 0xFF, 0xFF] = Inl ValueError \<and>
   TouchEvent_parse nextion [0x66, 0x01, 0x02, 0x01, 0xFF, 0xFF, 0xFF] = Inl TypeError"
  by (simp add: nextion_parse_simps Let_def)

text \<open>
  C7. With \<open>INVALID_CMD = 0x00\<close> and no entry for \<open>0x00\<close> in \<open>D_BYTE0_EVENT\<close>, the frame
  \<open>00 00 00 FF FF FF\<close> parses to the startup event, and every other frame that starts
  with that code raises \<open>NexMessageException(INVALID_CMD)\<close>.
\<close>

theorem parse_startup:
  assumes "Code_value R INVALID_CMD = 0x00" and "D_BYTE0_EVENT R 0x00 = None"
  shows "MsgEvent_parse R [0x00, 0x00, 0x00, 0xFF, 0xFF, 0xFF] = Inr EventStartup \<and>
     (\<forall>msg. msg \<noteq> [] \<and> msg ! 0 = Code_value R INVALID_CMD \<and>
            msg \<noteq> [0x00, 0x00, 0x00, 0xFF, 0xFF, 0xFF] \<longrightarrow>
        MsgEvent_parse R msg = Inl (NexMessageException (Code_value R INVALID_CMD)))"
  using assms
  by (auto simp: MsgEvent_parse_def Return_Code_def Code_members_def Code_names_def
      NEX_EXCEPTIONS_def)

theorem parse_startup_witness:
  "Code_value nextion INVALID_CMD = 0x00 \<and> D_BYTE0_EVENT nextion 0x00 = None \<and>
   MsgEvent_parse nextion [0x00, 0x00, 0x00, 0xFF, 0xFF, 0xFF] = Inr EventStartup \<and>
   MsgEvent_parse nextion [0x00, 0xFF, 0xFF, 0xFF] = Inl (NexMessageException 0x00)"
proof -
  have h1: "Code_value nextion INVALID_CMD = 0x00" by (simp add: nextion_def)
  have h2: "D_BYTE0_EVENT nextion 0x00 = None" by (simp add: D_BYTE0_EVENT_def nextion_def)
  have "[0x00, 0xFF, 0xFF, 0xFF] \<noteq> ([] :: bytes) \<and>
        [0x00, 0xFF, 0xFF, 0xFF :: byte] ! 0 = Code_value nextion INVALID_CMD \<and>
        [0x00, 0xFF, 0xFF, 0xFF] \<noteq> [0x00, 0x00, 0x00, 0xFF, 0xFF, 0xFF :: byte]"
    by (simp add: nextion_def)
  with parse_startup [OF h1 h2] h1 h2 show ?thesis by auto
qed

text \<open>
  C8. The empty byte string parses to the empty event, whose \<open>isempty\<close> is true and whose
  \<open>issuccess\<close> is false; no exception is raised, whatever the code table.
\<close>

theorem parse_empty:
  "MsgEvent_parse R [] = Inr EmptyMessage \<and> isempty EmptyMessage \<and> \<not> issuccess EmptyMessage"
  by (simp add: MsgEvent_parse_def)

section \<open>Properties of the commands\<close>

lemmas command_ctor_simps =
  SetPropertyCommand_def GetPropertyCommand_def PageCommand_def Command_def
  CommandBase_init_def format_command_def latin1_def pystr_def connect_signals_def

text \<open>
  C4. The set command for object \<open>t0\<close>, property \<open>txt\<close> and the value \<open>"Hi"\<close> (the four
  characters, quotes included, code point \<open>0x22\<close> being the double quote) is created with
  exactly the bytes of \<open>t0.txt="Hi"\<close> followed by \<open>FF FF FF\<close>, one byte per character
  (Latin-1), whatever slots are connected.
\<close>

theorem set_property_encoding:
  "map_sum id (\<lambda>c. (status c, command c))
     (SetPropertyCommand (pystr ''t0'') (pystr ''txt'') (PStr ([0x22] @ pystr ''Hi'' @ [0x22]))
        on_successful on_failed)
   = Inr (CREATED,
          [0x74, 0x30, 0x2E, 0x74, 0x78, 0x74, 0x3D, 0x22, 0x48, 0x69, 0x22, 0xFF, 0xFF, 0xFF])"
  by (cases on_successful; cases on_failed) (simp_all add: command_ctor_simps)

text \<open>The command inserts the value as it is: no quotes are added around a string.\<close>

lemma set_property_value_verbatim:
  "map_sum id command
     (SetPropertyCommand (pystr ''t0'') (pystr ''txt'') (PStr (pystr ''Hi'')) None None)
   = Inr [0x74, 0x30, 0x2E, 0x74, 0x78, 0x74, 0x3D, 0x48, 0x69, 0xFF, 0xFF, 0xFF]"
  by (simp add: command_ctor_simps)

text \<open>
  C3, as the code has it. A get-property command that was created and sent is \<open>SENT\<close>.
  Fed a string or number event it stores the event, stays \<open>SENT\<close> and is not completed.
  Fed \<open>CommandSucceeded\<close> next it becomes \<open>SUCCESSFUL\<close>, emits \<open>successful\<close> and still holds
  the data event. Fed instead an event that is neither \<open>CommandSucceeded\<close> nor a string
  or number event, it becomes \<open>ERROR\<close>, emits \<open>failed\<close> and still holds the data event.
\<close>

theorem get_property_lifecycle:
  assumes "cmd_class c = C_GetPropertyCommand" and "status c = CREATED"
    and "class_of d = C_StringHeadEvent \<or> class_of d = C_NumberHeadEvent"
  shows "CommandBase_send c out = (c\<lparr>status := SENT\<rparr>, out @ [command c]) \<and>
     CommandBase_event (c\<lparr>status := SENT\<rparr>) d
       = (c\<lparr>status := SENT, data_event := Some d\<rparr>, False, None) \<and>
     CommandBase_event (c\<lparr>status := SENT, data_event := Some d\<rparr>) CommandSucceeded
       = (c\<lparr>status := SUCCESSFUL, data_event := Some d\<rparr>, True, Some emit_successful) \<and>
     (\<forall>ev. class_of ev \<noteq> C_CommandSucceeded \<and> class_of ev \<noteq> C_StringHeadEvent \<and>
           class_of ev \<noteq> C_NumberHeadEvent \<longrightarrow>
        CommandBase_event (c\<lparr>status := SENT, data_event := Some d\<rparr>) ev
          = (c\<lparr>status := ERROR, data_event := Some d\<rparr>, True, Some emit_failed))"
  using assms by (auto simp: CommandBase_send_def CommandBase_event_def)

theorem get_property_lifecycle_witness:
  "GetPropertyCommand (pystr ''n0'') (pystr ''val'') None None = Inr get_n0_val \<and>
   cmd_class get_n0_val = C_GetPropertyCommand \<and> status get_n0_val = CREATED \<and>
   class_of (NumberHeadEvent 0x71 5 5) = C_NumberHeadEvent \<and>
   CommandBase_event (get_n0_val\<lparr>status := SENT\<rparr>) (NumberHeadEvent 0x71 5 5)
     = (get_n0_val\<lparr>status := SENT, data_event := Some (NumberHeadEvent 0x71 5 5)\<rparr>, False, None) \<and>
   CommandBase_event (get_n0_val\<lparr>status := SENT, data_event := Some (NumberHeadEvent 0x71 5 5)\<rparr>)
       CommandSucceeded
     = (get_n0_val\<lparr>status := SUCCESSFUL, data_event := Some (NumberHeadEvent 0x71 5 5)\<rparr>,
        True, Some emit_successful) \<and>
   CommandBase_event (get_n0_val\<lparr>status := SENT, data_event := Some (NumberHeadEvent 0x71 5 5)\<rparr>)
       EventLaunched
     = (get_n0_val\<lparr>status := ERROR, data_event := Some (NumberHeadEvent 0x71 5 5)\<rparr>,
        True, Some emit_failed)"
proof -
  have c: "cmd_class get_n0_val = C_GetPropertyCommand" and s: "status get_n0_val = CREATED"
    by (simp_all add: get_n0_val_def)
  have d: "class_of (NumberHeadEvent 0x71 5 5) = C_StringHeadEvent \<or>
           class_of (NumberHeadEvent 0x71 5 5) = C_NumberHeadEvent" by simp
  have g: "GetPropertyCommand (pystr ''n0'') (pystr ''val'') None None = Inr get_n0_val"
    by (simp add: command_ctor_simps get_n0_val_def)
  have e: "class_of EventLaunched \<noteq> C_CommandSucceeded \<and>
           class_of EventLaunched \<noteq> C_StringHeadEvent \<and>
           class_of EventLaunched \<noteq> C_NumberHeadEvent" by simp
  from get_property_lifecycle [OF c s d, of "[]"] e g c s show ?thesis by auto
qed

text \<open>
  C3 as stated fails: a second number event is a frame other than \<open>CommandSucceeded\<close>,
  and it leaves the command \<open>SENT\<close> (not completed, nothing emitted) with the new event
  stored.
\<close>

theorem get_property_second_data_event_counterexample:
  "GetPropertyCommand (pystr ''n0'') (pystr ''val'') None None = Inr get_n0_val \<and>
   CommandBase_event (get_n0_val\<lparr>status := SENT, data_event := Some (NumberHeadEvent 0x71 1 1)\<rparr>)
       (NumberHeadEvent 0x71 2 2)
     = (get_n0_val\<lparr>status := SENT, data_event := Some (NumberHeadEvent 0x71 2 2)\<rparr>, False, None)"
  by (simp add: command_ctor_simps get_n0_val_def CommandBase_event_def)

section \<open>Properties of the registry\<close>

lemmas registry_simps =
  hook_page_def hook_widget_on_def hook_widget_def WidgetFactory_create_def D_FACTORY_def
  lower_def pystr_def new_NexPage_def new_NexDevice_def Let_def
  example_session_def example_page0_def example_page1_def example_t0_def

lemma example_session_hooked:
  "hook_widget_on 1 (pystr ''text'') (pystr ''t0'') (Some 1)
     (snd (hook_page (pystr ''second'') (Some 1)
        (snd (hook_page (pystr ''main'') (Some 0) new_NexDevice))))
   = (Inr example_t0, example_session)"
  by (simp add: registry_simps)

text \<open>
  C9, as the code has it. Hooking a page whose name exists raises the name-uniqueness
  error; hooking a page with a new name and an ID that exists raises the ID-uniqueness
  error. Hooking a widget whose name exists on the page raises the name-uniqueness error;
  hooking a widget with a new name and an ID that exists on the page raises the
  ID-uniqueness error. In each case the page and the session are as they were.
\<close>

theorem hook_uniqueness:
  "(nm \<in> set (map fst (pages_by_name dev)) \<longrightarrow>
      hook_page nm pid' dev = (Inl NexComponentNameException, dev)) \<and>
   (nm \<notin> set (map fst (pages_by_name dev)) \<and> i \<in> set (map fst (pages_by_id dev)) \<longrightarrow>
      hook_page nm (Some i) dev = (Inl NexComponentIdException, dev)) \<and>
   (nm \<in> set (map fst (D_WIDGETS_BY_NAME page)) \<longrightarrow>
      hook_widget wt nm cid' page = (Inl NexComponentNameException, page)) \<and>
   (nm \<notin> set (map fst (D_WIDGETS_BY_NAME page)) \<and> i \<in> set (map fst (D_WIDGETS_BY_CID page)) \<longrightarrow>
      hook_widget wt nm (Some i) page = (Inl NexComponentIdException, page)) \<and>
   (nm \<notin> set (map fst (D_WIDGETS_BY_NAME (pages dev ! p))) \<and>
    i \<in> set (map fst (D_WIDGETS_BY_CID (pages dev ! p))) \<longrightarrow>
      hook_widget_on p wt nm (Some i) dev = (Inl NexComponentIdException, dev))"
  by (simp add: hook_page_def hook_widget_def hook_widget_on_def)

theorem hook_uniqueness_witness:
  "pystr ''main'' \<in> set (map fst (pages_by_name example_session)) \<and>
   hook_page (pystr ''main'') (Some 7) example_session
     = (Inl NexComponentNameException, example_session) \<and>
   pystr ''third'' \<notin> set (map fst (pages_by_name example_session)) \<and>
   1 \<in> set (map fst (pages_by_id example_session)) \<and>
   hook_page (pystr ''third'') (Some 1) example_session
     = (Inl NexComponentIdException, example_session) \<and>
   pystr ''t1'' \<notin> set (map fst (D_WIDGETS_BY_NAME (pages example_session ! 1))) \<and>
   1 \<in> set (map fst (D_WIDGETS_BY_CID (pages example_session ! 1))) \<and>
   hook_widget_on 1 (pystr ''text'') (pystr ''t1'') (Some 1) example_session
     = (Inl NexComponentIdException, example_session)"
proof -
  have a: "pystr ''main'' \<in> set (map fst (pages_by_name example_session))"
    and b: "pystr ''third'' \<notin> set (map fst (pages_by_name example_session)) \<and>
            1 \<in> set (map fst (pages_by_id example_session))"
    and c: "pystr ''t1'' \<notin> set (map fst (D_WIDGETS_BY_NAME (pages example_session ! 1))) \<and>
            1 \<in> set (map fst (D_WIDGETS_BY_CID (pages example_session ! 1)))"
    by (simp_all add: registry_simps)
  from hook_uniqueness [of "pystr ''main''" example_session "Some 7" 1]
       hook_uniqueness [of "pystr ''third''" example_session _ 1]
       hook_uniqueness [of "pystr ''t1''" example_session _ 1 _ _ _ 1 ]
       a b c
  show ?thesis by simp
qed

text \<open>
  C9 as stated fails: the name is tested first, so hooking the widget \<open>t0\<close> with ID 1 a
  second time raises the name-uniqueness error although the ID exists on the page.
\<close>

theorem hook_widget_same_name_and_id_counterexample:
  "hook_widget_on 1 (pystr ''text'') (pystr ''t0'') (Some 1)
     (snd (hook_page (pystr ''second'') (Some 1)
        (snd (hook_page (pystr ''main'') (Some 0) new_NexDevice))))
     = (Inr example_t0, example_session) \<and>
   1 \<in> set (map fst (D_WIDGETS_BY_CID (pages example_session ! 1))) \<and>
   hook_widget_on 1 (pystr ''text'') (pystr ''t0'') (Some 1) example_session
     = (Inl NexComponentNameException, example_session)"
  by (simp add: registry_simps)

section \<open>Properties of the command queue\<close>

lemma run_slot_fields [simp]:
  "commands (run_slot c s d) = commands d" "tx (run_slot c s d) = tx d"
  "rx (run_slot c s d) = rx d" "raw (run_slot c s d) = raw d"
  "initialized (run_slot c s d) = initialized d" "current_page (run_slot c s d) = current_page d"
  "pages_by_id (run_slot c s d) = pages_by_id d" "pages_by_name (run_slot c s d) = pages_by_name d"
  by (cases "(c, s, d)" rule: run_slot.cases; simp)+

lemma fold_run_slot_fields [simp]:
  "commands (fold (run_slot c) ss d) = commands d" "tx (fold (run_slot c) ss d) = tx d"
  "rx (fold (run_slot c) ss d) = rx d" "raw (fold (run_slot c) ss d) = raw d"
  "initialized (fold (run_slot c) ss d) = initialized d"
  "current_page (fold (run_slot c) ss d) = current_page d"
  "pages_by_id (fold (run_slot c) ss d) = pages_by_id d"
  "pages_by_name (fold (run_slot c) ss d) = pages_by_name d"
  by (induction ss arbitrary: d; simp)+

lemma emit_fields [simp]:
  "commands (emit sg c d) = commands d" "tx (emit sg c d) = tx d"
  "rx (emit sg c d) = rx d" "raw (emit sg c d) = raw d"
  "initialized (emit sg c d) = initialized d" "current_page (emit sg c d) = current_page d"
  "pages_by_id (emit sg c d) = pages_by_id d" "pages_by_name (emit sg c d) = pages_by_name d"
  by (simp_all add: emit_def split: option.splits)

lemma set_rotate_deque [simp]: "set (rotate_deque q) = set q"
  by (cases q) (auto simp: rotate_deque_def)

lemma rotate_deque_Nil [simp]: "rotate_deque q = [] \<longleftrightarrow> q = []"
  by (cases q) (auto simp: rotate_deque_def)

lemma scan_returns_sent:
  assumes "scan ev dev = Some r"
  shows "commands dev = [] \<or> (\<exists>c \<in> set (commands dev). status c = SENT)"
  using assms
proof (induction rule: scan.raw_induct [rotated 1, consumes 1])
  case (1 scan' ev' dev' r')
  show ?case
  proof (cases "commands dev'")
    case Nil
    then show ?thesis by simp
  next
    case (Cons c rest)
    show ?thesis
    proof (cases "status c = SENT")
      case True
      with Cons show ?thesis by simp
    next
      case False
      with Cons 1(2) have "scan' ev' (dev'\<lparr>commands := rotate_deque (commands dev')\<rparr>) = Some r'"
        by (simp split: if_splits)
      from 1(1) [OF this] Cons show ?thesis by simp
    qed
  qed
qed

lemma scan_all_created_diverges:
  assumes "commands dev \<noteq> []" and "\<forall>c \<in> set (commands dev). status c \<noteq> SENT"
  shows "scan ev dev = None"
proof (cases "scan ev dev")
  case None then show ?thesis .
next
  case (Some r)
  from scan_returns_sent [OF this] assms show ?thesis by auto
qed

lemma unflag_run_slot [simp]: "unflag (pages (run_slot c s d)) = unflag (pages d)"
proof (cases "(c, s, d)" rule: run_slot.cases)
  case (1 sender p dev)
  have "map (\<lambda>p. p\<lparr>page_switch_in_progress := False\<rparr>)
          ((pages dev)[p := (pages dev ! p)\<lparr>page_switch_in_progress := False\<rparr>])
        = map (\<lambda>p. p\<lparr>page_switch_in_progress := False\<rparr>) (pages dev)"
    if "p < length (pages dev)"
    using that by (simp add: map_update list_update_same_conv)
  with 1 show ?thesis by (simp add: unflag_def)
qed simp_all

lemma unflag_fold_run_slot [simp]: "unflag (pages (fold (run_slot c) ss d)) = unflag (pages d)"
  by (induction ss arbitrary: d) simp_all

lemma unflag_emit [simp]: "unflag (pages (emit sg c d)) = unflag (pages d)"
  by (simp add: emit_def split: option.splits)

lemma same_registry_refl [simp]: "same_registry d d"
  by (simp add: same_registry_def)

lemma same_registry_trans: "same_registry a b \<Longrightarrow> same_registry b c \<Longrightarrow> same_registry a c"
  by (simp add: same_registry_def)

lemma pending_created: "pending q = map command (created q)"
  by (simp add: pending_def created_def)

lemma one_in_flight_all_created:
  "list_all (\<lambda>x. status x = CREATED) q \<Longrightarrow> one_in_flight q"
  by (cases q) (simp_all add: one_in_flight_def)

lemma CommandBase_event_status:
  assumes "CommandBase_event c ev = (c', fin, sg)" and "status c = SENT"
  shows "status c' \<noteq> CREATED \<and> (\<not> fin \<longrightarrow> status c' = SENT) \<and> command c' = command c"
  using assms by (auto simp: CommandBase_event_def split: if_splits)

lemma scan_one_in_flight:
  assumes inv: "one_in_flight (commands dev)" and ret: "scan ev dev = Some r"
  shows "one_in_flight (commands r) \<and> created (commands r) = created (commands dev) \<and>
         tx r = tx dev \<and> rx r = rx dev \<and> same_registry dev r"
proof (cases "commands dev")
  case Nil
  with ret have "r = dev" by (simp add: scan.simps)
  with inv show ?thesis by simp
next
  case (Cons c rest)
  from inv Cons have rest: "list_all (\<lambda>x. status x = CREATED) rest"
    and c: "status c = CREATED \<or> status c = SENT"
    by (simp_all add: one_in_flight_def)
  have sent: "status c = SENT"
  proof (rule ccontr)
    assume "status c \<noteq> SENT"
    with c rest Cons have "\<forall>x \<in> set (commands dev). status x \<noteq> SENT"
      by (auto simp: list_all_iff)
    with scan_all_created_diverges [of dev ev] Cons ret show False by simp
  qed
  obtain c' fin sg where ev: "CommandBase_event c ev = (c', fin, sg)"
    by (cases "CommandBase_event c ev") auto
  from CommandBase_event_status [OF ev sent]
  have c': "status c' \<noteq> CREATED" "\<not> fin \<longrightarrow> status c' = SENT" by simp_all
  let ?d1 = "emit sg c' (dev\<lparr>commands := c' # rest\<rparr>)"
  from ret Cons sent ev
  have r: "r = (if fin then ?d1\<lparr>commands := tl (commands ?d1)\<rparr> else ?d1)"
    by (subst (asm) scan.simps) (simp add: Let_def)
  show ?thesis
  proof (cases fin)
    case True
    with r rest Cons sent show ?thesis
      by (simp add: one_in_flight_all_created created_def same_registry_def)
  next
    case False
    with r rest Cons sent c' show ?thesis
      by (simp add: one_in_flight_def created_def same_registry_def)
  qed
qed

lemma dispatch_touch_fields:
  assumes "dispatch_touch ev dev = (r, dev')"
  shows "commands dev' = commands dev \<and> tx dev' = tx dev \<and> rx dev' = rx dev \<and> same_registry dev dev'"
  using assms
  by (auto simp: dispatch_touch_def same_registry_def
      split: MsgEvent.splits option.splits if_splits)

lemma poll_dispatch_one_in_flight:
  assumes "one_in_flight (commands dev)" and "poll_dispatch evs dev = Some (r, dev')"
  shows "one_in_flight (commands dev') \<and> created (commands dev') = created (commands dev) \<and>
         tx dev' = tx dev \<and> rx dev' = rx dev \<and> same_registry dev dev'"
  using assms
proof (induction evs arbitrary: dev)
  case Nil
  then show ?case by simp
next
  case (Cons ev evs)
  show ?case
  proof (cases "class_of ev = C_TouchEvent")
    case True
    obtain r1 d1 where t: "dispatch_touch ev dev = (r1, d1)" by (cases "dispatch_touch ev dev") auto
    from dispatch_touch_fields [OF t]
    have f: "commands d1 = commands dev" "tx d1 = tx dev" "rx d1 = rx dev" "same_registry dev d1"
      by simp_all
    show ?thesis
    proof (cases r1)
      case (Inl e)
      with Cons.prems True t f show ?thesis by auto
    next
      case (Inr u)
      with Cons.prems True t have "poll_dispatch evs d1 = Some (r, dev')" by simp
      from Cons.IH [OF _ this] Cons.prems(1) f show ?thesis
        by (auto intro: same_registry_trans)
    qed
  next
    case False
    with Cons.prems obtain d1 where s: "scan ev dev = Some d1"
      and rest: "poll_dispatch evs d1 = Some (r, dev')"
      by (auto split: option.splits)
    from scan_one_in_flight [OF Cons.prems(1) s] Cons.IH [OF _ rest]
    show ?thesis by (auto intro: same_registry_trans)
  qed
qed

lemma refresh_widgets_REFRESH [simp]: "refresh_widgets p REFRESH_VARIABLES ws dev = (Inr (), dev)"
  by (induction ws) simp_all

lemma NexPage_refresh_noop [simp]: "NexPage_refresh p dev = (Inr (), dev)"
  by (simp add: NexPage_refresh_def Let_def)

lemma poll_send_cases:
  assumes "one_in_flight (commands dev)"
  shows "(poll_send dev = dev \<and> (commands dev = [] \<or> status (hd (commands dev)) = SENT)) \<or>
         (\<exists>c rest. commands dev = c # rest \<and> status c = CREATED \<and>
            list_all (\<lambda>x. status x = CREATED) rest \<and>
            poll_send dev = dev\<lparr>commands := c\<lparr>status := SENT\<rparr> # rest, tx := tx dev @ [command c]\<rparr>)"
  using assms
  by (cases "commands dev")
     (auto simp: poll_send_def one_in_flight_def CommandBase_send_def)

lemma created_append [simp]: "created (a @ b) = created a @ created b"
  by (simp add: created_def)

lemma poll_one_in_flight:
  assumes inv: "one_in_flight (commands dev)" and ret: "poll R dev = Some (r, dev')"
  shows "one_in_flight (commands dev') \<and>
         tx dev' @ pending (commands dev') = tx dev @ pending (commands dev) \<and>
         same_registry dev dev' \<and>
         (tx dev' = tx dev \<or>
          (\<exists>c rest. c \<in> set (commands dev) \<and> status c = CREATED \<and>
             commands dev' = c\<lparr>status := SENT\<rparr> # rest \<and>
             list_all (\<lambda>x. status x = CREATED) rest \<and> tx dev' = tx dev @ [command c])) \<and>
         (r = Inr True \<longleftrightarrow> (\<exists>u. r = Inr u) \<and> commands dev' = [])"
proof -
  obtain rd rest where rd: "poll_read R (rx dev) [] = (rd, rest)"
    by (cases "poll_read R (rx dev) []") auto
  show ?thesis
  proof (cases rd)
    case (Inl e)
    with rd ret have "dev' = dev\<lparr>rx := rest\<rparr>" "r = Inl e" by (auto simp: poll_def)
    with inv show ?thesis by (simp add: same_registry_def)
  next
    case (Inr events)
    let ?d0 = "dev\<lparr>rx := rest\<rparr>"
    from rd Inr ret obtain rp d1 where d: "poll_dispatch events ?d0 = Some (rp, d1)"
      by (auto simp: poll_def split: option.splits)
    have inv0: "one_in_flight (commands ?d0)" using inv by simp
    from poll_dispatch_one_in_flight [OF inv0 d]
    have d1: "one_in_flight (commands d1)" "created (commands d1) = created (commands dev)"
      "tx d1 = tx dev" "same_registry dev d1"
      by (simp_all add: same_registry_def)
    show ?thesis
    proof (cases rp)
      case (Inl e)
      with rd Inr ret d have "dev' = d1" "r = Inl e" by (auto simp: poll_def)
      with d1 show ?thesis by (simp add: pending_created)
    next
      case (Inr u)
      let ?d2 = "poll_send d1"
      from rd \<open>rd = Inr events\<close> ret d Inr
      have fin: "dev' = ?d2 \<and> r = Inr (commands ?d2 = [])"
        by (auto simp: poll_def Let_def split: option.splits if_splits)
      from poll_send_cases [OF d1(1)] show ?thesis
      proof
        assume a: "poll_send d1 = d1 \<and> (commands d1 = [] \<or> status (hd (commands d1)) = SENT)"
        with fin d1 show ?thesis by (auto simp: pending_created)
      next
        assume "\<exists>c rest. commands d1 = c # rest \<and> status c = CREATED \<and>
            list_all (\<lambda>x. status x = CREATED) rest \<and>
            poll_send d1 = d1\<lparr>commands := c\<lparr>status := SENT\<rparr> # rest, tx := tx d1 @ [command c]\<rparr>"
        then obtain c rest' where c: "commands d1 = c # rest'" "status c = CREATED"
          "list_all (\<lambda>x. status x = CREATED) rest'"
          "poll_send d1 = d1\<lparr>commands := c\<lparr>status := SENT\<rparr> # rest', tx := tx d1 @ [command c]\<rparr>"
          by blast
        from c(1,2) have "c \<in> set (created (commands d1))" by (simp add: created_def)
        with d1(2) have cin: "c \<in> set (commands dev)" by (simp add: created_def)
        have p: "pending (commands d1) = command c # pending rest'"
          using c(1,2) by (simp add: pending_def)
        have p': "pending (c\<lparr>status := SENT\<rparr> # rest') = pending rest'"
          by (simp add: pending_def)
        from fin c d1 cin p p' show ?thesis
          by (auto simp: one_in_flight_def same_registry_def pending_created)
      qed
    qed
  qed
qed

lemma evolves_invariant:
  assumes "evolves R dev0 es dev" and "one_in_flight (commands dev0)"
  shows "one_in_flight (commands dev) \<and>
         tx dev @ pending (commands dev) = tx dev0 @ pending (commands dev0) @ es"
  using assms
proof (induction rule: evolves.induct)
  case (evolves_refl dev)
  then show ?case by simp
next
  case (evolves_poll dev es dev1 r dev2)
  with poll_one_in_flight [of dev1 R r dev2] show ?case by simp
next
  case (evolves_enqueue dev es dev1 c)
  then have inv: "one_in_flight (commands dev1)" by simp
  have "one_in_flight (commands dev1 @ [c])"
    using inv evolves_enqueue.hyps(2)
    by (cases "commands dev1") (simp_all add: one_in_flight_def)
  with evolves_enqueue show ?case
    by (simp add: on_enqueue_command_def appendleft_def pending_def)
next
  case (evolves_other dev es dev1 dev2)
  then show ?case by simp
qed

text \<open>
  C2. Start from a session whose deque is empty and let it evolve by calls of \<open>poll\<close>, by
  enqueuing new commands and by anything that leaves the deque and the output alone. Then
  in every state reached, and after every further call of \<open>poll\<close> (returning or raising),
  at most one command is \<open>SENT\<close> and it is the oldest one. A call of \<open>poll\<close> writes nothing,
  or it writes exactly one command: that command was in the deque with status \<open>CREATED\<close>,
  it is afterwards the oldest entry, with status \<open>SENT\<close>, and every other entry is
  \<open>CREATED\<close>. What has been written, followed by what still waits, is the sequence of the
  commands enqueued, in their order: of A, B and C enqueued in this order, A is written
  first, and B only once A has left the deque.
\<close>

theorem single_in_flight:
  assumes "commands dev0 = []" and "evolves R dev0 es dev" and "poll R dev = Some (r, dev')"
  shows "one_in_flight (commands dev) \<and> one_in_flight (commands dev') \<and>
     (tx dev' = tx dev \<or>
      (\<exists>c rest. c \<in> set (commands dev) \<and> status c = CREATED \<and>
         commands dev' = c\<lparr>status := SENT\<rparr> # rest \<and>
         list_all (\<lambda>x. status x = CREATED) rest \<and> tx dev' = tx dev @ [command c])) \<and>
     tx dev' @ pending (commands dev') = tx dev0 @ es"
proof -
  have i0: "one_in_flight (commands dev0)" using assms(1) by (simp add: one_in_flight_def)
  from evolves_invariant [OF assms(2) i0] assms(1)
  have inv: "one_in_flight (commands dev)"
    and fifo: "tx dev @ pending (commands dev) = tx dev0 @ es"
    by (simp_all add: pending_def)
  from poll_one_in_flight [OF inv assms(3)] inv fifo show ?thesis by simp
qed

lemma abc_evolves:
  "evolves nextion new_NexDevice
     [command (plain_command ''A''), command (plain_command ''B''), command (plain_command ''C'')]
     abc_session"
proof -
  have s: "status (plain_command x) = CREATED" for x by (simp add: plain_command_def)
  from evolves_enqueue [OF evolves_enqueue [OF evolves_enqueue [OF evolves_refl s] s] s,
      of nextion new_NexDevice "''A''" "''B''" "''C''"]
  show ?thesis by (simp add: abc_session_def)
qed

lemma abc_poll:
  "poll nextion abc_session =
     Some (Inr False,
           abc_session\<lparr>commands := [(plain_command ''A'')\<lparr>status := SENT\<rparr>, plain_command ''B'',
                                    plain_command ''C''],
                       tx := [command (plain_command ''A'')]\<rparr>)"
  by (simp add: poll_def abc_session_def new_NexDevice_def on_enqueue_command_def appendleft_def
      poll_send_def CommandBase_send_def plain_command_def)

theorem single_in_flight_witness:
  "commands new_NexDevice = [] \<and>
   Command (pystr ''A'') [] = Inr (plain_command ''A'') \<and>
   evolves nextion new_NexDevice
     [command (plain_command ''A''), command (plain_command ''B''), command (plain_command ''C'')]
     abc_session \<and>
   poll nextion abc_session =
     Some (Inr False,
           abc_session\<lparr>commands := [(plain_command ''A'')\<lparr>status := SENT\<rparr>, plain_command ''B'',
                                    plain_command ''C''],
                       tx := [command (plain_command ''A'')]\<rparr>) \<and>
   one_in_flight [(plain_command ''A'')\<lparr>status := SENT\<rparr>, plain_command ''B'', plain_command ''C'']"
proof -
  have h1: "commands new_NexDevice = []" by (simp add: new_NexDevice_def)
  have c: "Command (pystr ''A'') [] = Inr (plain_command ''A'')"
    by (simp add: command_ctor_simps plain_command_def)
  from single_in_flight [OF h1 abc_evolves abc_poll] h1 c abc_evolves abc_poll
  show ?thesis by simp
qed

text \<open>The scan returns exactly when the deque is empty or holds a command in status \<open>SENT\<close>.\<close>

lemma scan_sent_returns:
  assumes "commands dev = xs @ c # ys" and "status c = SENT" and "\<forall>x \<in> set xs. status x \<noteq> SENT"
  shows "\<exists>r. scan ev dev = Some r"
  using assms
proof (induction xs arbitrary: dev ys)
  case Nil
  obtain c' fin sg where "CommandBase_event c ev = (c', fin, sg)"
    by (cases "CommandBase_event c ev") auto
  with Nil show ?case by (subst scan.simps) (simp add: Let_def)
next
  case (Cons x xs)
  let ?d = "dev\<lparr>commands := rotate_deque (commands dev)\<rparr>"
  from Cons.prems have "commands ?d = xs @ c # (ys @ [x])" by (simp add: rotate_deque_def)
  from Cons.IH [OF this Cons.prems(2)] Cons.prems(3) obtain r where "scan ev ?d = Some r" by auto
  moreover from Cons.prems have "status x \<noteq> SENT" by simp
  ultimately show ?case using Cons.prems(1) by (subst scan.simps) simp
qed

lemma scan_returns_iff:
  "(\<exists>r. scan ev dev = Some r) \<longleftrightarrow>
     commands dev = [] \<or> (\<exists>c \<in> set (commands dev). status c = SENT)"
proof
  assume "\<exists>r. scan ev dev = Some r"
  then show "commands dev = [] \<or> (\<exists>c \<in> set (commands dev). status c = SENT)"
    by (auto dest: scan_returns_sent)
next
  assume a: "commands dev = [] \<or> (\<exists>c \<in> set (commands dev). status c = SENT)"
  show "\<exists>r. scan ev dev = Some r"
  proof (cases "commands dev = []")
    case True
    then show ?thesis by (subst scan.simps) simp
  next
    case False
    with a have "\<exists>c \<in> set (commands dev). status c = SENT" by simp
    then obtain xs c ys where "commands dev = xs @ c # ys" "status c = SENT"
      "\<forall>x \<in> set xs. status x \<noteq> SENT"
      by (auto dest!: split_list_first_prop)
    then show ?thesis by (rule scan_sent_returns)
  qed
qed

text \<open>
  C10 fails on the code. A response frame that arrives while the only queued command is
  still \<open>CREATED\<close> makes the scan rotate the deque forever: the loop has no exit in its
  \<open>CREATED\<close> branch, and neither the scan nor the call of \<open>poll\<close> returns.
\<close>

theorem scan_created_diverges:
  "scan EventLaunched (new_NexDevice\<lparr>commands := [plain_command ''A'']\<rparr>) = None \<and>
   poll nextion (new_NexDevice\<lparr>commands := [plain_command ''A''], rx := [[0x88, 0xFF, 0xFF, 0xFF]]\<rparr>)
     = None"
proof -
  have s: "scan EventLaunched d = None" if "commands d = [plain_command ''A'']" for d
    by (rule scan_all_created_diverges) (simp_all add: that plain_command_def)
  have p: "MsgEvent_parse nextion [0x88, 0xFF, 0xFF, 0xFF] = Inr EventLaunched"
    by (simp add: nextion_parse_simps)
  have "poll nextion (new_NexDevice\<lparr>commands := [plain_command ''A''], rx := [[0x88, 0xFF, 0xFF, 0xFF]]\<rparr>)
     = None"
    by (simp add: poll_def p s)
  then show ?thesis by (simp add: s)
qed

text \<open>
  A frame that starts with a fault code, has no entry in \<open>D_BYTE0_EVENT\<close> and is not the
  startup frame ends the call of \<open>poll\<close> with \<open>NexMessageException\<close>; only \<open>rx\<close> has changed.
\<close>

lemma poll_fault_frame:
  assumes "frame \<noteq> []" and "D_BYTE0_EVENT R (frame ! 0) = None"
    and "frame ! 0 \<in> set (NEX_EXCEPTIONS R)"
    and "frame \<noteq> [0x00, 0x00, 0x00, 0xFF, 0xFF, 0xFF]"
    and "rx dev = frame # rest"
  shows "poll R dev = Some (Inl (NexMessageException (frame ! 0)), dev\<lparr>rx := rest\<rparr>)"
proof -
  from assms(3) have "frame ! 0 \<in> set (Code_members R)"
    by (auto simp: NEX_EXCEPTIONS_def Code_members_def Code_names_def)
  with assms(1-4) have "MsgEvent_parse R frame = Inl (NexMessageException (frame ! 0))"
    by (simp add: MsgEvent_parse_def Return_Code_def)
  with assms(1,5) show ?thesis by (simp add: poll_def)
qed

text \<open>
  C1 fails on the code. The frame \<open>1A FF FF FF\<close> (invalid variable) arrives while a get
  command is in flight: \<open>MsgEvent.parse\<close> raises \<open>NexMessageException\<close> in the first loop of
  \<open>poll\<close>, nothing catches it, and \<open>poll\<close> ends with that exception. The command is still
  \<open>SENT\<close> in the deque and no signal was emitted.
\<close>

theorem fault_frame_escapes_poll:
  "poll nextion (new_NexDevice\<lparr>commands := [get_n0_val\<lparr>status := SENT\<rparr>],
                               rx := [[0x1A, 0xFF, 0xFF, 0xFF]]\<rparr>)
   = Some (Inl (NexMessageException 0x1A),
           new_NexDevice\<lparr>commands := [get_n0_val\<lparr>status := SENT\<rparr>], rx := []\<rparr>)"
proof -
  have p: "MsgEvent_parse nextion [0x1A, 0xFF, 0xFF, 0xFF] = Inl (NexMessageException 0x1A)"
    by (simp add: nextion_parse_simps)
  show ?thesis by (simp add: poll_def p)
qed

section \<open>Properties of the initialization\<close>

subsection \<open>Encoding of the commands of init\<close>




lemma latin1_Inr: "latin1 s = Inr bs \<Longrightarrow> bs = map of_nat s"
  by (simp add: latin1_def split: if_splits)




subsection \<open>Invariants of poll and of the drain loop\<close>




subsection \<open>The log only grows\<close>

lemma log_run_slot [simp]: "log (run_slot c s d) = log d"
  by (cases "(c, s, d)" rule: run_slot.cases) simp_all

lemma log_fold_run_slot [simp]: "log (fold (run_slot c) ss d) = log d"
  by (induction ss arbitrary: d) simp_all


lemma length_pages_run_slot [simp]: "length (pages (run_slot c s d)) = length (pages d)"
  by (cases "(c, s, d)" rule: run_slot.cases) simp_all

lemma length_pages_fold_run_slot [simp]: "length (pages (fold (run_slot c) ss d)) = length (pages d)"
  by (induction ss arbitrary: d) simp_all

lemma log_extends_refl [simp]: "log_extends d d"
  by (simp add: log_extends_def)





lemma log_poll_send [simp]: "log (poll_send d) = log d"
  by (simp add: poll_send_def CommandBase_send_def split: list.splits)


subsection \<open>The drain loop\<close>


subsection \<open>The drain after a page was selected\<close>

lemma no_failure_log_append:
  "no_failure (d\<lparr>log := log d0 @ ns\<rparr>) \<longleftrightarrow> list_all (\<lambda>n. \<not> is_failure n) (log d0) \<and> list_all (\<lambda>n. \<not> is_failure n) ns"
  by (simp add: no_failure_def)





subsection \<open>Selecting a page and refreshing it\<close>










subsection \<open>The sequence of init\<close>


lemma same_registry_commands [simp]: "same_registry d (d\<lparr>commands := cs\<rparr>)"
  by (simp add: same_registry_def)

lemma log_extends_commands [simp]: "log_extends d (d\<lparr>commands := cs\<rparr>)"
  by (simp add: log_extends_def)







text \<open>Hooking pages and widgets, from the new session on, builds a registry that is \<open>registry_ok\<close>.\<close>

lemma registry_ok_new: "registry_ok new_NexDevice"
  by (simp add: registry_ok_def new_NexDevice_def)

lemma registry_ok_hook_page:
  assumes "registry_ok dev"
  shows "registry_ok (snd (hook_page nm pid' dev))"
proof (cases "hook_page nm pid' dev = (Inr (length (pages dev)),
    (case pid' of None \<Rightarrow> dev\<lparr>pages := pages dev @ [new_NexPage nm pid']\<rparr>
     | Some i \<Rightarrow> dev\<lparr>pages := pages dev @ [new_NexPage nm pid'],
                       pages_by_id := pages_by_id dev @ [(i, length (pages dev))]\<rparr>)
      \<lparr>pages_by_name := pages_by_name dev @ [(nm, length (pages dev))]\<rparr>)")
  case False
  then have "snd (hook_page nm pid' dev) = dev"
    by (auto simp: hook_page_def Let_def split: option.splits if_splits)
  with assms show ?thesis by simp
next
  case True
  then have new: "case pid' of None \<Rightarrow> True | Some i \<Rightarrow> i \<notin> set (map fst (pages_by_id dev))"
    by (auto simp: hook_page_def Let_def split: option.splits if_splits)
  from assms have "\<And>i p. (i, p) \<in> set (pages_by_id dev) \<Longrightarrow>
      p < length (pages dev) \<and> pid (pages dev ! p) = Some i"
    by (auto simp: registry_ok_def list_all_iff)
  with assms True new show ?thesis
    by (cases pid')
       (auto simp: registry_ok_def list_all_iff nth_append new_NexPage_def)
qed

lemma registry_ok_hook_widget:
  assumes "registry_ok dev" and "p < length (pages dev)"
  shows "registry_ok (snd (hook_widget_on p wt nm cid' dev))"
proof -
  obtain r page where h: "hook_widget wt nm cid' (pages dev ! p) = (r, page)"
    by (cases "hook_widget wt nm cid' (pages dev ! p)") auto
  then have "pid page = pid (pages dev ! p)"
    by (auto simp: hook_widget_def Let_def split: if_splits sum.splits option.splits)
  with assms h show ?thesis
    by (auto simp: hook_widget_on_def registry_ok_def list_all_iff nth_list_update)
qed





end
